theory Spec2Isabelle
  imports Complex_Main "HOL-Library.Word"
begin

section \<open>Edit tokens (backend utils/crypto)\<close>

text \<open>
  The token functions work on JavaScript strings and on byte buffers.  A string is a
  \<open>char list\<close>, a buffer a list of 8-bit words.  Two collaborators come from the
  runtime and are parameters of the model: the random bytes that \<open>randomBytes\<close>
  hands out, and the SHA-256 digest of \<open>createHash('sha256').update(s).digest()\<close>,
  a function from the hashed string to the digest bytes.
\<close>

type_synonym byte = "8 word"

definition hexDigits :: string where
  "hexDigits = ''0123456789abcdef''"

text \<open>\<open>Buffer.toString('hex')\<close>: two lower-case hexadecimal digits for each byte.\<close>

definition hexByte :: "byte \<Rightarrow> string" where
  "hexByte b = [hexDigits ! (unat b div 16), hexDigits ! (unat b mod 16)]"

definition toHex :: "byte list \<Rightarrow> string" where
  "toHex bs = concat (map hexByte bs)"

text \<open>
  \<open>String.prototype.split\<close> with a one-character separator: the pieces between the
  separators, in order; a string without the separator is the only piece.
\<close>

fun splitOn :: "char \<Rightarrow> string \<Rightarrow> string list" where
  "splitOn c [] = [[]]"
| "splitOn c (x # xs) =
     (if x = c then [] # splitOn c xs
      else (case splitOn c xs of [] \<Rightarrow> [[x]] | y # ys \<Rightarrow> (x # y) # ys))"

text \<open>
  \<open>hashEditToken\<close>: \<open>saltBytes\<close> are the bytes \<open>randomBytes(16)\<close> returned.  The
  digest is taken over the hexadecimal salt string followed by the token.
\<close>

definition hashEditToken :: "(string \<Rightarrow> byte list) \<Rightarrow> byte list \<Rightarrow> string \<Rightarrow> string" where
  "hashEditToken sha256 saltBytes token =
     (let salt = toHex saltBytes;
          hash = toHex (sha256 (salt @ token))
      in salt @ '':'' @ hash)"

text \<open>
  \<open>verifyEditToken\<close>: the destructuring \<open>[salt, hash] = hashedToken.split(':')\<close> reads
  the first two pieces (a missing piece is \<open>undefined\<close>); \<open>!salt || !hash\<close> holds for a
  missing or empty piece.  The comparison is \<open>===\<close> on the two hexadecimal strings.
\<close>

definition verifyEditToken :: "(string \<Rightarrow> byte list) \<Rightarrow> string \<Rightarrow> string \<Rightarrow> bool" where
  "verifyEditToken sha256 token hashedToken =
     (case splitOn CHR '':'' hashedToken of
        salt # hash # _ \<Rightarrow>
          if salt = [] \<or> hash = [] then False
          else toHex (sha256 (salt @ token)) = hash
      | _ \<Rightarrow> False)"

subsection \<open>Hexadecimal strings and splitting\<close>

lemma hexDigits_nth_not_colon: "n < 16 \<Longrightarrow> hexDigits ! n \<noteq> CHR '':''"
proof -
  assume "n < 16"
  moreover have "length hexDigits = 16" by (simp add: hexDigits_def)
  ultimately have "hexDigits ! n \<in> set hexDigits" using nth_mem by metis
  moreover have "CHR '':'' \<notin> set hexDigits" by (simp add: hexDigits_def)
  ultimately show ?thesis by metis
qed

lemma hexByte_no_colon: "CHR '':'' \<notin> set (hexByte b)"
proof -
  have "unat b < 256" using unsigned_less [of b, where ?'a = nat] by simp
  then have "unat b div 16 < 16" by simp
  moreover have "unat b mod 16 < 16" by simp
  ultimately show ?thesis
    using hexDigits_nth_not_colon [of "unat b div 16"] hexDigits_nth_not_colon [of "unat b mod 16"]
    by (auto simp: hexByte_def)
qed

lemma toHex_no_colon: "CHR '':'' \<notin> set (toHex bs)"
  using hexByte_no_colon by (auto simp: toHex_def)

lemma toHex_length: "length (toHex bs) = 2 * length bs"
  by (induction bs) (simp_all add: toHex_def hexByte_def)

lemma splitOn_none: "c \<notin> set s \<Longrightarrow> splitOn c s = [s]"
  by (induction s) auto

lemma splitOn_first: "c \<notin> set a \<Longrightarrow> splitOn c (a @ c # b) = a # splitOn c b"
  by (induction a) auto

text \<open>
  On a stored string of the shape \<open>salt:hash\<close> the verification is exactly the
  comparison of the recomputed digest with the stored one.
\<close>

lemma verifyEditToken_stored:
  assumes "CHR '':'' \<notin> set salt" "CHR '':'' \<notin> set h" "salt \<noteq> []" "h \<noteq> []"
  shows "verifyEditToken sha256 token (salt @ CHR '':'' # h) = (toHex (sha256 (salt @ token)) = h)"
  using assms by (simp add: verifyEditToken_def splitOn_first splitOn_none)

subsection \<open>Hash then verify\<close>

text \<open>
  Claim C1.  For every token \<open>t\<close>, every 16-byte salt the random source supplies and every
  digest function with 32-byte digests, \<open>hashEditToken\<close> returns the salt in hexadecimal,
  a colon and the hexadecimal digest of the salt string followed by \<open>t\<close>;
  \<open>verifyEditToken\<close> accepts \<open>t\<close> against that stored string, and it accepts any token
  exactly when the digest recomputed with the stored salt equals the stored digest.
\<close>

theorem hash_then_verify:
  assumes "length saltBytes = 16" and "\<forall>m. length (sha256 m) = 32"
  shows "hashEditToken sha256 saltBytes t
           = toHex saltBytes @ '':'' @ toHex (sha256 (toHex saltBytes @ t))
         \<and> verifyEditToken sha256 t (hashEditToken sha256 saltBytes t)
         \<and> (\<forall>t'. verifyEditToken sha256 t' (hashEditToken sha256 saltBytes t)
                  = (toHex (sha256 (toHex saltBytes @ t'))
                     = toHex (sha256 (toHex saltBytes @ t))))"
proof -
  have "toHex saltBytes \<noteq> []"
    using toHex_length [of saltBytes] assms(1) by auto
  moreover have "toHex (sha256 (toHex saltBytes @ t)) \<noteq> []"
    using toHex_length [of "sha256 (toHex saltBytes @ t)"] assms(2) by auto
  ultimately show ?thesis
    by (simp add: hashEditToken_def Let_def verifyEditToken_stored toHex_no_colon)
qed

text \<open>
  The theorem at the salt \<open>00 01 \<dots> 0f\<close>, a digest function that returns 32 bytes,
  and the token \<open>secret\<close>.
\<close>

theorem hash_then_verify_witness:
  "length (map of_nat [0..<16] :: byte list) = 16
   \<and> (\<forall>m. length ((\<lambda>s. replicate 32 (of_nat (length s))) m :: byte list) = 32)
   \<and> verifyEditToken (\<lambda>s. replicate 32 (of_nat (length s))) ''secret''
        (hashEditToken (\<lambda>s. replicate 32 (of_nat (length s))) (map of_nat [0..<16]) ''secret'')"
proof -
  have salt: "length (map of_nat [0..<16] :: byte list) = 16"
    by simp
  have digest: "\<forall>m. length ((\<lambda>s. replicate 32 (of_nat (length s))) m :: byte list) = 32"
    by simp
  from hash_then_verify [OF salt digest, of "''secret''"] salt digest
  show ?thesis by blast
qed

section \<open>Rendering the vector image (QRService)\<close>

subsection \<open>JavaScript string operations\<close>

text \<open>\<open>stripPrefix p s\<close>: the rest of \<open>s\<close> after the literal \<open>p\<close> at its start, if it is there.\<close>

fun stripPrefix :: "string \<Rightarrow> string \<Rightarrow> string option" where
  "stripPrefix [] s = Some s"
| "stripPrefix (p # ps) [] = None"
| "stripPrefix (p # ps) (c # cs) = (if p = c then stripPrefix ps cs else None)"

lemma stripPrefix_length: "stripPrefix p s = Some r \<Longrightarrow> length r \<le> length s"
  by (induction p s rule: stripPrefix.induct) (auto split: if_splits)

lemma stripPrefix_shorter: "stripPrefix p s = Some r \<Longrightarrow> p \<noteq> [] \<Longrightarrow> length r < length s"
  by (cases p; cases s) (auto split: if_splits dest: stripPrefix_length)

text \<open>
  \<open>s.replace(pat, rep)\<close> with a string pattern: the leftmost occurrence only.  The
  replacement text is inserted as it is; the \<open>$\<close> patterns of JavaScript replacement
  strings are outside the model (a colour that passed the options schema holds no \<open>$\<close>).
\<close>

fun replaceFirst :: "string \<Rightarrow> string \<Rightarrow> string \<Rightarrow> string" where
  "replaceFirst pat rep [] = (if pat = [] then rep else [])"
| "replaceFirst pat rep (c # cs) =
     (case stripPrefix pat (c # cs) of
        Some r \<Rightarrow> rep @ r
      | None \<Rightarrow> c # replaceFirst pat rep cs)"

text \<open>
  \<open>s.replace(/pat/g, rep)\<close> for a pattern without metacharacters: every occurrence,
  left to right, the search going on after each replaced occurrence.
\<close>

function replaceAll :: "string \<Rightarrow> string \<Rightarrow> string \<Rightarrow> string" where
  "replaceAll pat rep [] = []"
| "replaceAll pat rep (c # cs) =
     (case stripPrefix pat (c # cs) of
        Some r \<Rightarrow> if pat = [] then c # cs else rep @ replaceAll pat rep r
      | None \<Rightarrow> c # replaceAll pat rep cs)"
  by pat_completeness auto
termination
  by (relation "measure (\<lambda>(pat, rep, s). length s)") (auto dest: stripPrefix_shorter)

definition isSpace :: "char \<Rightarrow> bool" where
  "isSpace c = (c \<in> set [CHR '' '', CHR 0x09, CHR 0x0A, CHR 0x0B, CHR 0x0C, CHR 0x0D])"

definition trim :: "string \<Rightarrow> string" where
  "trim s = rev (dropWhile isSpace (rev (dropWhile isSpace s)))"

subsection \<open>Options\<close>

datatype ec_level = Level_L | Level_M | Level_Q | Level_H

record gradient =
  gradient_from :: string
  gradient_to :: string

text \<open>
  \<open>QROptions\<close>.  Numbers are reals, of which the program holds the doubles; the
  arithmetic on them is that of the section on JavaScript numbers.  \<open>gradient\<close> is
  optional in the schema;
  \<open>logoScale\<close> is read with a fallback (\<open>options.logoScale || 0.2\<close>), so it may be absent.
\<close>

record QROptions =
  size :: real
  color :: string
  background :: string
  gradient :: "gradient option"
  rounded :: bool
  logoScale :: "real option"
  errorCorrection :: ec_level

datatype js_error = Error string | TypeError string

subsection \<open>Gradient\<close>

definition nl :: string where
  "nl = [CHR 0x0A]"

text \<open>The template literal \<open>gradientDef\<close>, line by line.\<close>

definition gradientDef :: "gradient \<Rightarrow> string" where
  \<open>gradientDef g =
     nl @ ''      <defs>'' @
     nl @ ''        <linearGradient id="qrGradient" x1="0%" y1="0%" x2="100%" y2="100%">'' @
     nl @ ''          <stop offset="0%" style="stop-color:'' @ gradient_from g @ '';stop-opacity:1" />'' @
     nl @ ''          <stop offset="100%" style="stop-color:'' @ gradient_to g @ '';stop-opacity:1" />'' @
     nl @ ''        </linearGradient>'' @
     nl @ ''      </defs>'' @
     nl @ ''    ''\<close>

text \<open>
  \<open>applyGradient\<close>: the gradient markup goes after the first \<open><svg\<close>; then the two
  global replacements of the literal fill \<open>#000000\<close>, in double and in single quotes.
\<close>

definition applyGradient :: "string \<Rightarrow> gradient \<Rightarrow> string" where
  \<open>applyGradient svg g =
     replaceAll (''fill='' @ [CHR 0x27] @ ''#000000'' @ [CHR 0x27])
                (''fill='' @ [CHR 0x27] @ ''url(#qrGradient)'' @ [CHR 0x27])
       (replaceAll ''fill="#000000"'' ''fill="url(#qrGradient)"''
         (replaceFirst ''<svg''
            (''<svg '' @ trim (replaceFirst ''</defs>'' [] (replaceFirst ''<defs'' [] (gradientDef g))))
            svg))\<close>

subsection \<open>Rounded corners\<close>

definition isDigit :: "char \<Rightarrow> bool" where
  "isDigit c = (c \<in> set ''0123456789'')"

text \<open>
  One match of \<open>/rect width="([0-9]+)" height="([0-9]+)"/\<close> at the start of \<open>s\<close>: the
  two groups and the text after the match.  \<open>[0-9]+\<close> takes every digit there is, and
  the next character must be the closing quote, so no shorter group can match.
\<close>

definition matchRect :: "string \<Rightarrow> (string \<times> string \<times> string) option" where
  \<open>matchRect s =
     (case stripPrefix ''rect width="'' s of
        None \<Rightarrow> None
      | Some s1 \<Rightarrow>
          let w = takeWhile isDigit s1; s2 = dropWhile isDigit s1 in
          if w = [] then None
          else (case stripPrefix ''" height="'' s2 of
                  None \<Rightarrow> None
                | Some s3 \<Rightarrow>
                    let h = takeWhile isDigit s3; s4 = dropWhile isDigit s3 in
                    if h = [] then None
                    else (case stripPrefix ''"'' s4 of
                            None \<Rightarrow> None
                          | Some rest \<Rightarrow> Some (w, h, rest))))\<close>

text \<open>The replacement \<open>rect width="$1" height="$2" rx="2" ry="2"\<close>.\<close>

definition roundedRect :: "string \<Rightarrow> string \<Rightarrow> string" where
  \<open>roundedRect w h = ''rect width="'' @ w @ ''" height="'' @ h @ ''" rx="2" ry="2"''\<close>

lemma dropWhile_length: "length (dropWhile P xs) \<le> length xs"
  by (induction xs) auto

lemma matchRect_shorter:
  assumes "matchRect s = Some (w, h, rest)"
  shows "length rest < length s"
proof -
  from assms obtain s1 s3 where
    s1: \<open>stripPrefix ''rect width="'' s = Some s1\<close> and
    s3: \<open>stripPrefix ''" height="'' (dropWhile isDigit s1) = Some s3\<close> and
    s4: \<open>stripPrefix ''"'' (dropWhile isDigit s3) = Some rest\<close>
    by (auto simp: matchRect_def Let_def split: option.splits if_splits)
  have "length rest \<le> length (dropWhile isDigit s3)" using s4 by (rule stripPrefix_length)
  also have "\<dots> \<le> length s3" by (rule dropWhile_length)
  also have "\<dots> \<le> length (dropWhile isDigit s1)" using s3 by (rule stripPrefix_length)
  also have "\<dots> \<le> length s1" by (rule dropWhile_length)
  also have "\<dots> < length s" using s1 by (rule stripPrefix_shorter) simp
  finally show ?thesis .
qed

text \<open>\<open>applyRoundedCorners\<close>: the global replacement, scanning from the left.\<close>

function applyRoundedCorners :: "string \<Rightarrow> string" where
  "applyRoundedCorners [] = []"
| "applyRoundedCorners (c # cs) =
     (case matchRect (c # cs) of
        Some (w, h, rest) \<Rightarrow> roundedRect w h @ applyRoundedCorners rest
      | None \<Rightarrow> c # applyRoundedCorners cs)"
  by pat_completeness auto
termination
  by (relation "measure length") (auto dest: matchRect_shorter)

subsection \<open>generateSVG\<close>

text \<open>
  The module grid and its markup come from the QR library (\<open>new QRCode(data, \<dots>).toString()\<close>),
  a parameter \<open>qrToString\<close> of the model; it fails on content beyond the symbol's capacity.
\<close>

definition generateSVG ::
  "(string \<Rightarrow> QROptions \<Rightarrow> js_error + string) \<Rightarrow> string \<Rightarrow> QROptions \<Rightarrow> js_error + string" where
  "generateSVG qrToString data options =
     (case qrToString data options of
        Inl e \<Rightarrow> Inl e
      | Inr svg0 \<Rightarrow>
          let svg1 = (case gradient options of Some g \<Rightarrow> applyGradient svg0 g | None \<Rightarrow> svg0);
              svg2 = (if rounded options then applyRoundedCorners svg1 else svg1)
          in Inr svg2)"

subsection \<open>Sample markup\<close>

text \<open>
  The markup the QR library writes is not part of the service.  To run \<open>generateSVG\<close>
  on a concrete input the theorems below use a small renderer that draws three
  rectangles in the configured colours: the background, the outer square of the top-left
  finder pattern (seven modules wide, behind the quiet zone of four), and one data module.
\<close>

definition sampleRenderer :: "string \<Rightarrow> QROptions \<Rightarrow> js_error + string" where
  \<open>sampleRenderer data options =
     Inr (''<svg width="29" height="29">'' @
          ''<rect width="29" height="29" fill="'' @ background options @ ''"/>'' @
          ''<rect width="7" height="7" x="4" y="4" fill="'' @ color options @ ''"/>'' @
          ''<rect width="1" height="1" x="12" y="12" fill="'' @ color options @ ''"/>'' @
          ''</svg>'')\<close>

definition sampleOptions :: QROptions where
  "sampleOptions = \<lparr>size = 512, color = ''#000000'', background = ''#FFFFFF'', gradient = None,
     rounded = False, logoScale = Some 0.2, errorCorrection = Level_H\<rparr>"

text \<open>The text of a rectangle that the rounding pattern matches.\<close>

definition plainRect :: "string \<Rightarrow> string \<Rightarrow> string" where
  \<open>plainRect w h = ''rect width="'' @ w @ ''" height="'' @ h @ ''"''\<close>

subsection \<open>Rounding reaches every rectangle\<close>

lemma stripPrefix_append_other:
  "c \<notin> set p \<Longrightarrow> stripPrefix p (a @ c # t) = map_option (\<lambda>r. r @ c # t) (stripPrefix p a)"
  by (induction p a rule: stripPrefix.induct) auto

lemma takeWhile_append_stop: "\<not> P c \<Longrightarrow> takeWhile P (a @ c # t) = takeWhile P a"
  by (induction a) auto

lemma dropWhile_append_stop: "\<not> P c \<Longrightarrow> dropWhile P (a @ c # t) = dropWhile P a @ c # t"
  by (induction a) auto

lemma r_not_digit: "\<not> isDigit CHR ''r''"
  by (simp add: isDigit_def)

text \<open>
  The letter \<open>r\<close> stands in the pattern at its first position only, so a match that
  starts before an \<open>r\<close> ends before it: what follows the \<open>r\<close> has no influence.
\<close>

lemma matchRect_append_r:
  assumes "pre \<noteq> []"
  shows "matchRect (pre @ CHR ''r'' # t)
         = map_option (\<lambda>(w, h, rest). (w, h, rest @ CHR ''r'' # t)) (matchRect pre)"
proof -
  obtain x xs where pre: "pre = x # xs" using assms by (cases pre) auto
  have first: \<open>stripPrefix ''rect width="'' (pre @ CHR ''r'' # t)
      = map_option (\<lambda>r. r @ CHR ''r'' # t) (stripPrefix ''rect width="'' pre)\<close>
  proof (cases "x = CHR ''r''")
    case True
    then show ?thesis
      unfolding pre using stripPrefix_append_other [of "CHR ''r''" \<open>''ect width="''\<close> xs t]
      by simp
  next
    case False
    then show ?thesis unfolding pre by simp
  qed
  show ?thesis
    unfolding matchRect_def first
    by (auto simp: Let_def takeWhile_append_stop dropWhile_append_stop r_not_digit
          stripPrefix_append_other split: option.splits)
qed

lemma applyRoundedCorners_append_r:
  "applyRoundedCorners (pre @ CHR ''r'' # t)
   = applyRoundedCorners pre @ applyRoundedCorners (CHR ''r'' # t)"
proof (induction pre rule: applyRoundedCorners.induct)
  case 1
  then show ?case by simp
next
  case (2 c cs)
  show ?case
  proof (cases "matchRect (c # cs)")
    case None
    then have "matchRect (c # cs @ CHR ''r'' # t) = None"
      using matchRect_append_r [of "c # cs" t] by simp
    with None 2 show ?thesis by simp
  next
    case (Some m)
    obtain w h rest where m: "m = (w, h, rest)" by (cases m)
    have "matchRect (c # cs @ CHR ''r'' # t) = Some (w, h, rest @ CHR ''r'' # t)"
      using Some m matchRect_append_r [of "c # cs" t] by simp
    with Some m 2 show ?thesis by simp
  qed
qed

lemma matchRect_plainRect:
  assumes "w \<noteq> []" "list_all isDigit w" "h \<noteq> []" "list_all isDigit h"
  shows "matchRect (plainRect w h @ rest) = Some (w, h, rest)"
proof -
  have q: "\<not> isDigit (CHR 0x22)" by (simp add: isDigit_def)
  have tw: "\<And>d r. list_all isDigit d \<Longrightarrow> takeWhile isDigit (d @ CHR 0x22 # r) = d"
    using q by (simp add: takeWhile_append_stop list_all_iff)
  have dw: "\<And>d r. list_all isDigit d \<Longrightarrow> dropWhile isDigit (d @ CHR 0x22 # r) = CHR 0x22 # r"
    using q by (simp add: dropWhile_append_stop list_all_iff)
  show ?thesis
    using assms by (simp add: matchRect_def plainRect_def Let_def tw dw)
qed

lemma applyRoundedCorners_plainRect:
  assumes "w \<noteq> []" "list_all isDigit w" "h \<noteq> []" "list_all isDigit h"
  shows "applyRoundedCorners (pre @ plainRect w h @ post)
         = applyRoundedCorners pre @ roundedRect w h @ applyRoundedCorners post"
proof -
  obtain t where t: "plainRect w h @ post = CHR ''r'' # t"
    by (simp add: plainRect_def)
  have "applyRoundedCorners (pre @ plainRect w h @ post)
        = applyRoundedCorners pre @ applyRoundedCorners (plainRect w h @ post)"
    unfolding t by (rule applyRoundedCorners_append_r)
  moreover have "applyRoundedCorners (plainRect w h @ post)
        = roundedRect w h @ applyRoundedCorners post"
    using matchRect_plainRect [OF assms, of post] unfolding t by simp
  ultimately show ?thesis by simp
qed

text \<open>
  Claim C2 as stated fails: with \<open>rounded\<close> set, the 7 by 7 square of the finder
  pattern at (4, 4) leaves \<open>generateSVG\<close> with \<open>rx="2" ry="2"\<close>, like the background
  and the data module.
\<close>

theorem rounded_finder_counterexample:
  \<open>generateSVG sampleRenderer ''hello'' (sampleOptions\<lparr>rounded := True\<rparr>)
   = Inr (''<svg width="29" height="29">'' @
          ''<rect width="29" height="29" rx="2" ry="2" fill="#FFFFFF"/>'' @
          ''<rect width="7" height="7" rx="2" ry="2" x="4" y="4" fill="#000000"/>'' @
          ''<rect width="1" height="1" rx="2" ry="2" x="12" y="12" fill="#000000"/>'' @
          ''</svg>'')\<close>
  by code_simp

text \<open>
  Claim C2, amended.  With \<open>rounded\<close> set, every rectangle of the markup that reaches the
  rounding step and is written \<open>rect width="<digits>" height="<digits>"\<close> leaves it with
  \<open>rx="2" ry="2"\<close> added, whatever stands before and after it: the position of the
  rectangle in the symbol plays no part, and the text around it is rewritten by the same rule.
\<close>

theorem rounded_reaches_every_rect:
  assumes "rounded options"
    and "qrToString data options = Inr svg0"
    and "(case gradient options of Some g \<Rightarrow> applyGradient svg0 g | None \<Rightarrow> svg0)
           = pre @ plainRect w h @ post"
    and "w \<noteq> []" "list_all isDigit w" "h \<noteq> []" "list_all isDigit h"
  shows "generateSVG qrToString data options
         = Inr (applyRoundedCorners pre @ roundedRect w h @ applyRoundedCorners post)"
proof -
  have "generateSVG qrToString data options
        = Inr (applyRoundedCorners (pre @ plainRect w h @ post))"
    using assms(1,2,3) by (simp add: generateSVG_def Let_def)
  then show ?thesis
    using applyRoundedCorners_plainRect [OF assms(4-7)] by simp
qed

text \<open>The theorem at the finder square of the sample markup.\<close>

theorem rounded_reaches_every_rect_witness:
  \<open>rounded (sampleOptions\<lparr>rounded := True\<rparr>)
   \<and> list_all isDigit ''7''
   \<and> generateSVG sampleRenderer ''hello'' (sampleOptions\<lparr>rounded := True\<rparr>)
       = Inr (applyRoundedCorners
                (''<svg width="29" height="29"><rect width="29" height="29" fill="#FFFFFF"/><'')
              @ roundedRect ''7'' ''7''
              @ applyRoundedCorners
                  ('' x="4" y="4" fill="#000000"/>'' @
                   ''<rect width="1" height="1" x="12" y="12" fill="#000000"/></svg>''))\<close>
proof -
  let ?opts = "sampleOptions\<lparr>rounded := True\<rparr>"
  let ?pre = \<open>''<svg width="29" height="29"><rect width="29" height="29" fill="#FFFFFF"/><''\<close>
  let ?post = \<open>'' x="4" y="4" fill="#000000"/>'' @
               ''<rect width="1" height="1" x="12" y="12" fill="#000000"/></svg>''\<close>
  have r: "rounded ?opts" by simp
  have d: "list_all isDigit ''7''" by (simp add: isDigit_def)
  have ne: "''7'' \<noteq> []" by simp
  have out: "sampleRenderer ''hello'' ?opts = Inr (?pre @ plainRect ''7'' ''7'' @ ?post)"
    by (simp add: sampleRenderer_def sampleOptions_def plainRect_def)
  have g: "(case gradient ?opts of Some g \<Rightarrow> applyGradient (?pre @ plainRect ''7'' ''7'' @ ?post) g
            | None \<Rightarrow> ?pre @ plainRect ''7'' ''7'' @ ?post) = ?pre @ plainRect ''7'' ''7'' @ ?post"
    by (simp add: sampleOptions_def)
  from rounded_reaches_every_rect
         [where qrToString = sampleRenderer and data = "''hello''" and options = ?opts
            and pre = ?pre and w = "''7''" and h = "''7''" and post = ?post,
          OF r out g ne d ne d] r d
  show ?thesis by blast
qed

subsection \<open>The gradient and the configured colour\<close>

text \<open>
  With the default colour \<open>#000000\<close> the dark rectangles of the sample markup are
  pointed at the gradient.
\<close>

lemma gradient_on_default_colour:
  \<open>generateSVG sampleRenderer ''hello''
     (sampleOptions\<lparr>gradient := Some \<lparr>gradient_from = ''#FF0000'', gradient_to = ''#0000FF''\<rparr>\<rparr>)
   = Inr (''<svg >'' @
          nl @ ''        <linearGradient id="qrGradient" x1="0%" y1="0%" x2="100%" y2="100%">'' @
          nl @ ''          <stop offset="0%" style="stop-color:#FF0000;stop-opacity:1" />'' @
          nl @ ''          <stop offset="100%" style="stop-color:#0000FF;stop-opacity:1" />'' @
          nl @ ''        </linearGradient> width="29" height="29">'' @
          ''<rect width="29" height="29" fill="#FFFFFF"/>'' @
          ''<rect width="7" height="7" x="4" y="4" fill="url(#qrGradient)"/>'' @
          ''<rect width="1" height="1" x="12" y="12" fill="url(#qrGradient)"/>'' @
          ''</svg>'')\<close>
  by code_simp

text \<open>
  Claim C5.  The claim asks that with a gradient set every dark module references the
  gradient, whichever solid colour is configured.  The code replaces the literal fill
  \<open>#000000\<close> only: with the colour \<open>#112233\<close> the gradient is written into the
  markup and no dark rectangle refers to it; both keep the fill \<open>#112233\<close>.
\<close>

theorem gradient_misses_configured_colour:
  \<open>generateSVG sampleRenderer ''hello''
     (sampleOptions\<lparr>color := ''#112233'',
        gradient := Some \<lparr>gradient_from = ''#FF0000'', gradient_to = ''#0000FF''\<rparr>\<rparr>)
   = Inr (''<svg >'' @
          nl @ ''        <linearGradient id="qrGradient" x1="0%" y1="0%" x2="100%" y2="100%">'' @
          nl @ ''          <stop offset="0%" style="stop-color:#FF0000;stop-opacity:1" />'' @
          nl @ ''          <stop offset="100%" style="stop-color:#0000FF;stop-opacity:1" />'' @
          nl @ ''        </linearGradient> width="29" height="29">'' @
          ''<rect width="29" height="29" fill="#FFFFFF"/>'' @
          ''<rect width="7" height="7" x="4" y="4" fill="#112233"/>'' @
          ''<rect width="1" height="1" x="12" y="12" fill="#112233"/>'' @
          ''</svg>'')\<close>
  by code_simp

section \<open>JavaScript numbers\<close>

text \<open>
  A JavaScript number is an IEEE 754 double.  The finite doubles are reals, and every
  arithmetic operation returns the exact result rounded to the nearest double, ties to
  the even significand.  \<open>toDouble\<close> is that rounding: the spacing of the doubles around
  \<open>x\<close> is \<open>2 ^ (e - 52)\<close> for the binary exponent \<open>e\<close> of \<open>x\<close>, which is not taken below
  -1022 (the subnormal numbers); a result of magnitude \<open>2 ^ 1024\<close> or more is an infinity,
  here \<open>None\<close>.
\<close>

definition expo :: "real \<Rightarrow> int" where
  "expo x = max \<lfloor>log 2 \<bar>x\<bar>\<rfloor> (- 1022)"

definition ulp :: "real \<Rightarrow> real" where
  "ulp x = 2 powi (expo x - 52)"

definition roundEven :: "real \<Rightarrow> int" where
  "roundEven y =
     (let f = \<lfloor>y\<rfloor>; d = y - of_int f in
      if d < 1 / 2 then f
      else if 1 / 2 < d then f + 1
      else if even f then f else f + 1)"

definition toDouble :: "real \<Rightarrow> real option" where
  "toDouble x =
     (if x = 0 then Some 0
      else (let r = of_int (roundEven (x / ulp x)) * ulp x in
            if \<bar>r\<bar> < 2 ^ 1024 then Some r else None))"

definition jsMul :: "real \<Rightarrow> real \<Rightarrow> real option" where
  "jsMul x y = toDouble (x * y)"

definition jsSub :: "real \<Rightarrow> real \<Rightarrow> real option" where
  "jsSub x y = toDouble (x - y)"

definition jsDiv :: "real \<Rightarrow> real \<Rightarrow> real option" where
  "jsDiv x y = toDouble (x / y)"

text \<open>The literal \<open>0.2\<close> of the program is the double nearest to one fifth.\<close>

definition double_0_2 :: real where
  "double_0_2 = 3602879701896397 / 18014398509481984"

subsection \<open>Rounding inside a binade\<close>

lemma expo_eq:
  assumes "2 powi k \<le> \<bar>x\<bar>" "\<bar>x\<bar> < 2 powi (k + 1)" "- 1022 \<le> k"
  shows "expo x = k"
proof -
  have pos: "0 < \<bar>x\<bar>" using assms(1) by (smt (verit) zero_less_power_int)
  have "(2::real) powr real_of_int k = 2 powi k"
    by (simp add: powr_real_of_int')
  moreover have "(2::real) powr (real_of_int k + 1) = 2 powi (k + 1)"
    using powr_real_of_int' [of 2 "k + 1"] by simp
  ultimately have "\<lfloor>log 2 \<bar>x\<bar>\<rfloor> = k"
    using assms(1,2) pos floor_log_eq_powr_iff [of "\<bar>x\<bar>" 2 k] by simp
  then show ?thesis using assms(3) by (simp add: expo_def)
qed

text \<open>With the exponent known, the rounding is a computation on rationals.\<close>

lemma toDouble_in_binade:
  assumes "2 powi k \<le> \<bar>x\<bar>" "\<bar>x\<bar> < 2 powi (k + 1)" "- 1022 \<le> k"
  shows "toDouble x =
     (let r = of_int (roundEven (x / 2 powi (k - 52))) * 2 powi (k - 52) in
      if \<bar>r\<bar> < 2 ^ 1024 then Some r else None)"
proof -
  have "x \<noteq> 0" using assms(1) by (smt (verit) zero_less_power_int)
  then show ?thesis
    by (simp add: toDouble_def ulp_def expo_eq [OF assms])
qed

lemma toDouble_one_fifth: "toDouble (2 / 10) = Some double_0_2"
  using toDouble_in_binade [of "-3" "2 / 10"]
  by (simp add: double_0_2_def power_int_def roundEven_def Let_def power_one_over)

lemma roundEven_close: "\<bar>of_int (roundEven y) - y\<bar> \<le> 1 / 2"
proof -
  have "of_int \<lfloor>y\<rfloor> \<le> y" "y < of_int \<lfloor>y\<rfloor> + 1" by linarith+
  then show ?thesis by (auto simp: roundEven_def Let_def)
qed

text \<open>The relative error of one rounding is at most \<open>2 ^ -53\<close>.\<close>

lemma toDouble_close:
  assumes "1 \<le> x" "x \<le> 2 ^ 1000"
  shows "\<exists>r. toDouble x = Some r \<and> \<bar>r - x\<bar> \<le> x / 2 ^ 53"
proof -
  define k where "k = \<lfloor>log 2 x\<rfloor>"
  have xpos: "0 < x" using assms(1) by simp
  have k0: "0 \<le> k" unfolding k_def using assms(1) by simp
  have "2 powr real_of_int k \<le> x \<and> x < 2 powr (real_of_int k + 1)"
    using floor_log_eq_powr_iff [of x 2 k] xpos by (simp add: k_def)
  moreover have "(2::real) powr real_of_int k = 2 powi k"
    by (simp add: powr_real_of_int')
  moreover have "(2::real) powr (real_of_int k + 1) = 2 powi (k + 1)"
    using powr_real_of_int' [of 2 "k + 1"] by simp
  ultimately have lo: "2 powi k \<le> \<bar>x\<bar>" and hi: "\<bar>x\<bar> < 2 powi (k + 1)"
    using xpos by simp_all
  have ex: "expo x = k" using lo hi k0 by (intro expo_eq) auto
  define u :: real where "u = 2 powi (k - 52)"
  have upos: "0 < u" by (simp add: u_def)
  have "u = 2 powi k / 2 ^ 52" by (simp add: u_def power_int_diff)
  then have ule: "u \<le> x / 2 ^ 52" using lo xpos by (simp add: divide_right_mono)
  define r where "r = of_int (roundEven (x / u)) * u"
  have "r - x = (of_int (roundEven (x / u)) - x / u) * u"
    using upos by (simp add: r_def algebra_simps)
  then have "\<bar>r - x\<bar> = \<bar>of_int (roundEven (x / u)) - x / u\<bar> * u"
    using upos by (simp add: abs_mult)
  also have "\<dots> \<le> 1 / 2 * u"
    using roundEven_close [of "x / u"] upos by (intro mult_right_mono) auto
  also have "\<dots> \<le> x / 2 ^ 53" using ule by simp
  finally have close: "\<bar>r - x\<bar> \<le> x / 2 ^ 53" .
  have "x / 2 ^ 53 \<le> x" using xpos by (simp add: divide_le_eq)
  then have "\<bar>r\<bar> \<le> 2 * x" using close xpos by linarith
  also have "\<dots> \<le> 2 * 2 ^ 1000" using assms(2) by simp
  also have "\<dots> < (2::real) ^ 1024" by simp
  finally have fin: "\<bar>r\<bar> < 2 ^ 1024" .
  have "toDouble x = Some r"
    using xpos fin by (simp add: toDouble_def ulp_def ex r_def u_def Let_def)
  with close show ?thesis by blast
qed

section \<open>Compositing the logo (QRService)\<close>

text \<open>
  The network and the image library are collaborators.  \<open>fetch\<close> is a parameter: no
  response at all (the promise rejects) or a response with its \<open>ok\<close> flag, status text
  and body.  The image library is modelled by the calls the service makes on it.  Two
  parameters stand for its work on the logo: \<open>decode\<close> gives the width and height of
  the image in the fetched bytes, or nothing when the bytes are not an image it reads;
  \<open>fitInside\<close> gives the width and height after the resize into a square box with
  \<open>fit: 'inside'\<close>, which keeps the aspect ratio.  The result of \<open>fetchLogo\<close> records the
  source bytes, the box and the dimensions of the resized logo; the result of
  \<open>compositeLogo\<close> records the base image and the list of overlays handed to
  \<open>composite\<close>.  The library refuses a resize whose edge is not a positive integer and an
  overlay whose offsets are not integers.
\<close>

record fetch_response =
  ok :: bool
  statusText :: string
  arrayBuffer :: "byte list"

record logo_buffer =
  logo_source :: "byte list"
  logo_box :: int
  logo_width :: int
  logo_height :: int

text \<open>
  An overlay of \<open>composite\<close> is an image buffer or a solid rectangle the library creates
  (\<open>create: {width, height, background}\<close>); the service only ever passes the first kind.
\<close>

datatype overlay_input = Buffer logo_buffer | Create int int string

record overlay =
  ov_input :: overlay_input
  ov_top :: int
  ov_left :: int

record 'b composite =
  comp_base :: 'b
  comp_overlays :: "overlay list"

text \<open>\<open>fetchLogo(url, size)\<close>; the size is \<open>None\<close> when it is an infinity.\<close>

definition fetchLogo ::
  "(string \<Rightarrow> fetch_response option) \<Rightarrow> (byte list \<Rightarrow> (int \<times> int) option)
     \<Rightarrow> (int \<times> int \<Rightarrow> int \<Rightarrow> int \<times> int) \<Rightarrow> string \<Rightarrow> int option
     \<Rightarrow> js_error + logo_buffer" where
  "fetchLogo fetch decode fitInside url sz =
     (case fetch url of
        None \<Rightarrow> Inl (TypeError ''fetch failed'')
      | Some response \<Rightarrow>
          if \<not> ok response then Inl (Error (''Failed to fetch logo: '' @ statusText response))
          else (case sz of
                  None \<Rightarrow> Inl (Error ''Expected positive integer for width'')
                | Some n \<Rightarrow>
                    if n \<le> 0 then Inl (Error ''Expected positive integer for width'')
                    else (case decode (arrayBuffer response) of
                            None \<Rightarrow> Inl (Error ''Input buffer contains unsupported image format'')
                          | Some dims \<Rightarrow>
                              Inr \<lparr>logo_source = arrayBuffer response, logo_box = n,
                                   logo_width = fst (fitInside dims n),
                                   logo_height = snd (fitInside dims n)\<rparr>)))"

text \<open>
  \<open>Math.floor(options.size * (options.logoScale || 0.2))\<close>: the fallback is taken for a
  missing scale and for the scale 0; the product is rounded to a double before the floor.
\<close>

definition logoSize :: "QROptions \<Rightarrow> int option" where
  "logoSize options =
     map_option floor
       (jsMul (size options)
          (case logoScale options of
             None \<Rightarrow> double_0_2
           | Some s \<Rightarrow> if s = 0 then double_0_2 else s))"

text \<open>
  \<open>Math.floor((options.size - logoSize) / 2)\<close>, used for \<open>top\<close> and for \<open>left\<close>: the
  difference and the quotient are each rounded to a double.
\<close>

definition logoOffset :: "QROptions \<Rightarrow> int option" where
  "logoOffset options =
     (case logoSize options of
        None \<Rightarrow> None
      | Some edge \<Rightarrow>
          (case jsSub (size options) (of_int edge) of
             None \<Rightarrow> None
           | Some d \<Rightarrow> map_option floor (jsDiv d 2)))"

text \<open>
  \<open>compositeLogo\<close>: any failure inside the \<open>try\<close> block is rethrown under one message.
  A failure of the last call itself, \<open>composite\<close> on the rendered raster with integer
  offsets, is not modelled: the raster comes from the library and, for scales up to a
  quarter, the logo fits in it.
\<close>

definition compositeLogo ::
  "(string \<Rightarrow> fetch_response option) \<Rightarrow> (byte list \<Rightarrow> (int \<times> int) option)
     \<Rightarrow> (int \<times> int \<Rightarrow> int \<Rightarrow> int \<times> int) \<Rightarrow> 'b \<Rightarrow> QROptions \<Rightarrow> string
     \<Rightarrow> js_error + 'b composite" where
  "compositeLogo fetch decode fitInside qrBuffer options logoUrl =
     (case fetchLogo fetch decode fitInside logoUrl (logoSize options) of
        Inl e \<Rightarrow> Inl (Error ''Failed to composite logo onto QR code'')
      | Inr logoBuffer \<Rightarrow>
          (case logoOffset options of
             None \<Rightarrow> Inl (Error ''Failed to composite logo onto QR code'')
           | Some offset \<Rightarrow>
               Inr \<lparr>comp_base = qrBuffer,
                    comp_overlays = [\<lparr>ov_input = Buffer logoBuffer,
                                      ov_top = offset,
                                      ov_left = offset\<rparr>]\<rparr>))"

subsection \<open>A bezel behind the logo\<close>






subsection \<open>Sample collaborators\<close>

text \<open>
  A complete PNG file of one opaque red pixel (signature, \<open>IHDR\<close> for 1 by 1 RGBA,
  \<open>IDAT\<close>, \<open>IEND\<close>), a fetch that answers it, and an image library that reads exactly
  this file and resizes by the rule of \<open>fit: 'inside'\<close>.
\<close>

definition samplePng :: "byte list" where
  "samplePng =
     [0x89, 0x50, 0x4E, 0x47, 0x0D, 0x0A, 0x1A, 0x0A,
      0x00, 0x00, 0x00, 0x0D, 0x49, 0x48, 0x44, 0x52, 0x00, 0x00, 0x00, 0x01,
      0x00, 0x00, 0x00, 0x01, 0x08, 0x06, 0x00, 0x00, 0x00, 0x1F, 0x15, 0xC4, 0x89,
      0x00, 0x00, 0x00, 0x0D, 0x49, 0x44, 0x41, 0x54, 0x78, 0xDA, 0x63, 0xF8, 0xCF,
      0xC0, 0xF0, 0x1F, 0x00, 0x05, 0x00, 0x01, 0xFF, 0x56, 0xC7, 0x2F, 0x0D,
      0x00, 0x00, 0x00, 0x00, 0x49, 0x45, 0x4E, 0x44, 0xAE, 0x42, 0x60, 0x82]"

definition sampleFetch :: "string \<Rightarrow> fetch_response option" where
  "sampleFetch url = Some \<lparr>ok = True, statusText = ''OK'', arrayBuffer = samplePng\<rparr>"

definition sampleDecode :: "byte list \<Rightarrow> (int \<times> int) option" where
  "sampleDecode bytes = (if bytes = samplePng then Some (1, 1) else None)"

definition sampleFitInside :: "int \<times> int \<Rightarrow> int \<Rightarrow> int \<times> int" where
  "sampleFitInside dims box =
     (let w = fst dims; h = snd dims in
      if w = h then (box, box)
      else if h < w then (box, max 1 ((2 * h * box + w) div (2 * w)))
      else (max 1 ((2 * w * box + h) div (2 * h)), box))"

text \<open>Size 512 with the double nearest to 0.2 as scale, all else as in \<open>sampleOptions\<close>.\<close>

definition logoOptions :: QROptions where
  "logoOptions = sampleOptions\<lparr>logoScale := Some double_0_2\<rparr>"

lemma logoOptions_size: "logoSize logoOptions = Some 102"
proof -
  have "jsMul 512 double_0_2 = Some (512 * double_0_2)"
    unfolding jsMul_def double_0_2_def
    using toDouble_in_binade [of 6 "512 * (3602879701896397 / 18014398509481984)"]
    by (simp add: power_int_def roundEven_def Let_def power_one_over)
  then show ?thesis
    by (simp add: logoSize_def logoOptions_def sampleOptions_def double_0_2_def)
qed

lemma logoOptions_offset: "logoOffset logoOptions = Some 205"
proof -
  have sub: "jsSub 512 102 = Some 410"
    unfolding jsSub_def using toDouble_in_binade [of 8 "512 - 102"]
    by (simp add: power_int_def roundEven_def Let_def power_one_over)
  have quot: "jsDiv 410 2 = Some 205"
    unfolding jsDiv_def using toDouble_in_binade [of 7 "410 / 2"]
    by (simp add: power_int_def roundEven_def Let_def power_one_over)
  have sz: "size logoOptions = 512"
    by (simp add: logoOptions_def sampleOptions_def)
  show ?thesis
    by (simp add: logoOffset_def logoOptions_size sz sub quot)
qed


subsection \<open>No bezel\<close>




subsection \<open>Size and place of the logo\<close>

text \<open>The doubles nearest to 0.15 and to 0.145.\<close>

definition double_0_15 :: real where
  "double_0_15 = 5404319552844595 / 36028797018963968"

definition double_0_145 :: real where
  "double_0_145 = 5224175567749775 / 36028797018963968"

lemma toDouble_0_15: "toDouble (15 / 100) = Some double_0_15"
  using toDouble_in_binade [of "-3" "15 / 100"]
  by (simp add: double_0_15_def power_int_def roundEven_def Let_def power_one_over)

lemma toDouble_0_145: "toDouble (145 / 1000) = Some double_0_145"
  using toDouble_in_binade [of "-3" "145 / 1000"]
  by (simp add: double_0_145_def power_int_def roundEven_def Let_def power_one_over)

lemma jsMul_200_0_15: "jsMul 200 double_0_15 = Some 30"
  unfolding jsMul_def double_0_15_def
  using toDouble_in_binade [of 4 "200 * (5404319552844595 / 36028797018963968)"]
  by (simp add: power_int_def roundEven_def Let_def power_one_over)

lemma jsMul_200_0_145: "jsMul 200 double_0_145 = Some (8162774324609023 / 281474976710656)"
  unfolding jsMul_def double_0_145_def
  using toDouble_in_binade [of 4 "200 * (5224175567749775 / 36028797018963968)"]
  by (simp add: power_int_def roundEven_def Let_def power_one_over)

text \<open>
  Claim C7 as stated fails inside its range, because the product is rounded to a double
  before the floor.  At size 200 with the double nearest to 0.15 as scale the edge is 30,
  where the floor of the product of the two numbers is 29; at size 200 with the double
  nearest to 0.145 the edge is 28, where the product of 200 and 0.145 is 29.
\<close>

theorem logo_edge_counterexample:
  "(128::real) \<le> 200 \<and> (200::real) \<le> 4096 \<and> 0.10 \<le> double_0_15 \<and> double_0_15 \<le> 0.25
   \<and> toDouble (15 / 100) = Some double_0_15
   \<and> logoSize (sampleOptions\<lparr>size := 200, logoScale := Some double_0_15\<rparr>) = Some 30
   \<and> \<lfloor>200 * double_0_15\<rfloor> = 29
   \<and> 0.10 \<le> double_0_145 \<and> double_0_145 \<le> 0.25
   \<and> toDouble (145 / 1000) = Some double_0_145
   \<and> logoSize (sampleOptions\<lparr>size := 200, logoScale := Some double_0_145\<rparr>) = Some 28
   \<and> \<lfloor>(200::real) * (145 / 1000)\<rfloor> = 29"
proof -
  have a: "logoSize (sampleOptions\<lparr>size := 200, logoScale := Some double_0_15\<rparr>) = Some 30"
    using jsMul_200_0_15 by (simp add: logoSize_def double_0_15_def)
  have b: "logoSize (sampleOptions\<lparr>size := 200, logoScale := Some double_0_145\<rparr>) = Some 28"
    using jsMul_200_0_145 by (simp add: logoSize_def double_0_145_def)
  have c: "\<lfloor>200 * double_0_15\<rfloor> = 29" "\<lfloor>(200::real) * (145 / 1000)\<rfloor> = 29"
    by (simp_all add: double_0_15_def)
  have d: "0.10 \<le> double_0_15" "double_0_15 \<le> 0.25" "0.10 \<le> double_0_145" "double_0_145 \<le> 0.25"
    by (simp_all add: double_0_15_def double_0_145_def)
  from a b c d toDouble_0_15 toDouble_0_145 show ?thesis by simp
qed

text \<open>
  Claim C7, amended.  For every size in [128, 4096] and scale in [0.10, 0.25], when the
  logo is fetched and decoded, the logo is resized to fit inside a square of edge
  \<open>Math.floor(size * logoScale)\<close>, the product being the double nearest to the exact one
  (within a relative error of \<open>2 ^ -53\<close>), and the resized logo, whose own width and height
  keep the aspect ratio, is composited with \<open>top = left = Math.floor((size - edge) / 2)\<close>.
  For size 512 and the scale 0.2 the edge is 102 and the corner (205, 205).
\<close>

theorem logo_edge_and_corner:
  assumes "128 \<le> size options" "size options \<le> 4096"
    and "logoScale options = Some s" "0.10 \<le> s" "s \<le> 0.25"
    and "fetch logoUrl = Some response" "ok response"
    and "decode (arrayBuffer response) = Some dims"
  shows "(\<exists>p d q.
            jsMul (size options) s = Some p
          \<and> \<bar>p - size options * s\<bar> \<le> size options * s / 2 ^ 53
          \<and> jsSub (size options) (of_int \<lfloor>p\<rfloor>) = Some d
          \<and> jsDiv d 2 = Some q
          \<and> compositeLogo fetch decode fitInside qrBuffer options logoUrl
              = Inr \<lparr>comp_base = qrBuffer,
                     comp_overlays =
                       [\<lparr>ov_input = Buffer \<lparr>logo_source = arrayBuffer response,
                                             logo_box = \<lfloor>p\<rfloor>,
                                             logo_width = fst (fitInside dims \<lfloor>p\<rfloor>),
                                             logo_height = snd (fitInside dims \<lfloor>p\<rfloor>)\<rparr>,
                         ov_top = \<lfloor>q\<rfloor>, ov_left = \<lfloor>q\<rfloor>\<rparr>]\<rparr>)
       \<and> logoSize logoOptions = Some 102 \<and> logoOffset logoOptions = Some 205"
proof -
  define x where "x = size options * s"
  have xlo: "128 * 0.10 \<le> x"
    unfolding x_def using assms(1,4) by (intro mult_mono) auto
  have xhi: "x \<le> 4096 * 0.25"
    unfolding x_def using assms(1,2,4,5) by (intro mult_mono) auto
  have xq: "x \<le> size options / 4"
    unfolding x_def using assms(1,5) mult_left_mono [of s "1 / 4" "size options"] by simp
  have "1 \<le> x" "x \<le> 2 ^ 1000" using xlo xhi by simp_all
  from toDouble_close [OF this]
  obtain p where p: "toDouble x = Some p" and pc: "\<bar>p - x\<bar> \<le> x / 2 ^ 53"
    by blast
  have small: "x / 2 ^ 53 \<le> 1 / 8" using xhi by simp
  have pe: "\<bar>p - x\<bar> \<le> 1 / 8" using pc small by linarith
  have edge_lo: "12 \<le> \<lfloor>p\<rfloor>"
  proof -
    have "64 / 5 \<le> x" using xlo by simp
    with pe have "12 \<le> p" by linarith
    then show ?thesis by (simp add: le_floor_iff)
  qed
  have edge_hi: "of_int \<lfloor>p\<rfloor> \<le> size options / 4 + 1 / 8"
  proof -
    have "of_int \<lfloor>p\<rfloor> \<le> p" by simp
    also have "p \<le> x + 1 / 8" using pe by linarith
    finally show ?thesis using xq by simp
  qed
  define y where "y = size options - of_int \<lfloor>p\<rfloor>"
  have ylo: "95 \<le> y" unfolding y_def using edge_hi assms(1) by simp
  have yhi: "y \<le> 4096"
  proof -
    have "(0::int) \<le> \<lfloor>p\<rfloor>" using edge_lo by linarith
    then have "(0::real) \<le> of_int \<lfloor>p\<rfloor>" by (rule of_int_nonneg)
    then show ?thesis unfolding y_def using assms(2) by linarith
  qed
  have "1 \<le> y" "y \<le> 2 ^ 1000" using ylo yhi by simp_all
  from toDouble_close [OF this]
  obtain d where d: "toDouble y = Some d" and dc: "\<bar>d - y\<bar> \<le> y / 2 ^ 53"
    by blast
  have ysmall: "y / 2 ^ 53 \<le> 1" using yhi by simp
  have de: "\<bar>d - y\<bar> \<le> 1" using dc ysmall by linarith
  have dlo: "94 \<le> d" and dhi: "d \<le> 4097"
    using de ylo yhi by linarith+
  have "1 \<le> d / 2" "d / 2 \<le> 2 ^ 1000" using dlo dhi by simp_all
  from toDouble_close [OF this]
  obtain q where q: "toDouble (d / 2) = Some q"
    by blast
  have nz: "s \<noteq> 0" using assms(4) by auto
  have mul: "jsMul (size options) s = Some p"
    using p by (simp add: jsMul_def x_def)
  have sub: "jsSub (size options) (of_int \<lfloor>p\<rfloor>) = Some d"
    using d by (simp add: jsSub_def y_def)
  have quot: "jsDiv d 2 = Some q"
    using q by (simp add: jsDiv_def)
  have sz: "logoSize options = Some \<lfloor>p\<rfloor>"
    using mul assms(3) nz by (simp add: logoSize_def)
  have off: "logoOffset options = Some \<lfloor>q\<rfloor>"
    using sz sub quot by (simp add: logoOffset_def)
  have pos: "\<not> \<lfloor>p\<rfloor> \<le> 0" using edge_lo by simp
  have run: "compositeLogo fetch decode fitInside qrBuffer options logoUrl
              = Inr \<lparr>comp_base = qrBuffer,
                     comp_overlays =
                       [\<lparr>ov_input = Buffer \<lparr>logo_source = arrayBuffer response,
                                             logo_box = \<lfloor>p\<rfloor>,
                                             logo_width = fst (fitInside dims \<lfloor>p\<rfloor>),
                                             logo_height = snd (fitInside dims \<lfloor>p\<rfloor>)\<rparr>,
                         ov_top = \<lfloor>q\<rfloor>, ov_left = \<lfloor>q\<rfloor>\<rparr>]\<rparr>"
    using sz off pos assms(6,7,8) by (simp add: compositeLogo_def fetchLogo_def)
  have "\<bar>p - size options * s\<bar> \<le> size options * s / 2 ^ 53"
    using pc by (simp add: x_def)
  with mul sub quot run logoOptions_size logoOptions_offset show ?thesis by blast
qed

text \<open>The theorem at size 512 and scale 0.2, with the one-pixel logo fetched and decoded.\<close>

theorem logo_edge_and_corner_witness:
  "128 \<le> size logoOptions \<and> size logoOptions \<le> 4096
   \<and> logoScale logoOptions = Some double_0_2
   \<and> 0.10 \<le> double_0_2 \<and> double_0_2 \<le> 0.25
   \<and> sampleFetch ''https://cdn.example/logo.png''
       = Some \<lparr>ok = True, statusText = ''OK'', arrayBuffer = samplePng\<rparr>
   \<and> sampleDecode samplePng = Some (1, 1)
   \<and> logoSize logoOptions = Some 102 \<and> logoOffset logoOptions = Some 205
   \<and> (case compositeLogo sampleFetch sampleDecode sampleFitInside ''qr'' logoOptions
              ''https://cdn.example/logo.png'' of
         Inr out \<Rightarrow> length (comp_overlays out) = 1 | Inl e \<Rightarrow> False)"
proof -
  let ?resp = "\<lparr>ok = True, statusText = ''OK'', arrayBuffer = samplePng\<rparr>"
  have h1: "128 \<le> size logoOptions" and h2: "size logoOptions \<le> 4096"
    and h3: "logoScale logoOptions = Some double_0_2"
    by (simp_all add: logoOptions_def sampleOptions_def)
  have h4: "0.10 \<le> double_0_2" and h5: "double_0_2 \<le> 0.25"
    by (simp_all add: double_0_2_def)
  have h6: "sampleFetch ''https://cdn.example/logo.png'' = Some ?resp"
    by (simp add: sampleFetch_def)
  have h7: "ok ?resp" by simp
  have dec: "sampleDecode samplePng = Some (1, 1)"
    by (simp add: sampleDecode_def)
  then have h8: "sampleDecode (arrayBuffer ?resp) = Some (1, 1)" by simp
  from logo_edge_and_corner
         [where fetch = sampleFetch and decode = sampleDecode and fitInside = sampleFitInside
            and qrBuffer = "''qr''" and options = logoOptions
            and logoUrl = "''https://cdn.example/logo.png''"
            and response = ?resp and s = double_0_2 and dims = "(1, 1)",
          OF h1 h2 h3 h4 h5 h6 h7 h8]
  have "(case compositeLogo sampleFetch sampleDecode sampleFitInside ''qr'' logoOptions
              ''https://cdn.example/logo.png'' of
         Inr out \<Rightarrow> length (comp_overlays out) = 1 | Inl e \<Rightarrow> False)"
    and "logoSize logoOptions = Some 102" and "logoOffset logoOptions = Some 205"
    by auto
  with h1 h2 h3 h4 h5 h6 dec show ?thesis by blast
qed

section \<open>Contrast validation (QRService)\<close>

subsection \<open>Parsing a colour\<close>

definition isHexDigit :: "char \<Rightarrow> bool" where
  "isHexDigit c = (c \<in> set ''0123456789abcdefABCDEF'')"

definition hexVal :: "char \<Rightarrow> nat" where
  "hexVal c =
     (if c \<in> set ''0123456789'' then of_char c - 48
      else if c \<in> set ''abcdef'' then of_char c - 87
      else of_char c - 55)"

text \<open>\<open>parseInt(s, 16)\<close> on a string of hexadecimal digits.\<close>

definition parseInt16 :: "string \<Rightarrow> nat" where
  "parseInt16 s = foldl (\<lambda>acc c. 16 * acc + hexVal c) 0 s"

record rgb_t =
  rgb_r :: nat
  rgb_g :: nat
  rgb_b :: nat

text \<open>
  The three groups of \<open>/^#?([a-f\d]{2})([a-f\d]{2})([a-f\d]{2})$/i\<close> on the text after
  the optional \<open>#\<close>: six characters, all hexadecimal digits of either case.
\<close>

fun hexGroups :: "string \<Rightarrow> (string \<times> string \<times> string) option" where
  "hexGroups [r1, r2, g1, g2, b1, b2] =
     (if list_all isHexDigit [r1, r2, g1, g2, b1, b2]
      then Some ([r1, r2], [g1, g2], [b1, b2]) else None)"
| "hexGroups _ = None"

text \<open>The inner function \<open>rgb\<close>; \<open>None\<close> is its \<open>null\<close>.\<close>

definition rgb :: "string \<Rightarrow> rgb_t option" where
  "rgb hex =
     (case hexGroups (case stripPrefix ''#'' hex of Some rest \<Rightarrow> rest | None \<Rightarrow> hex) of
        None \<Rightarrow> None
      | Some (rr, gg, bb) \<Rightarrow>
          Some \<lparr>rgb_r = parseInt16 rr, rgb_g = parseInt16 gg, rgb_b = parseInt16 bb\<rparr>)"

subsection \<open>Luminance and ratio\<close>

text \<open>
  One channel of the inner function \<open>luminance\<close>.  \<open>Math.pow(x, 2.4)\<close> is \<open>x powr 2.4\<close>
  on the reals; the base is positive on that branch.
\<close>

definition channel :: "nat \<Rightarrow> real" where
  "channel v =
     (let val = real v / 255 in
      if val \<le> 0.03928 then val / 12.92 else ((val + 0.055) / 1.055) powr 2.4)"

text \<open>
  \<open>luminance\<close> reads the fields of its argument, whose type admits \<open>null\<close>: on \<open>null\<close>
  the property access throws a \<open>TypeError\<close>.
\<close>

definition luminance :: "rgb_t option \<Rightarrow> js_error + real" where
  "luminance c =
     (case c of
        None \<Rightarrow> Inl (TypeError ''Cannot read properties of null'')
      | Some v \<Rightarrow>
          Inr (0.2126 * channel (rgb_r v) + 0.7152 * channel (rgb_g v) + 0.0722 * channel (rgb_b v)))"

record contrast_result =
  valid :: bool
  ratio :: "real option"

text \<open>
  \<open>validateContrast(color, background)\<close>; the two parameters are named \<open>colorHex\<close> and
  \<open>backgroundHex\<close> here, the plain names being fields of the options record.
\<close>

definition validateContrast :: "string \<Rightarrow> string \<Rightarrow> js_error + contrast_result" where
  "validateContrast colorHex backgroundHex =
     (let c1 = rgb colorHex; c2 = rgb backgroundHex in
      if c1 = None \<or> c2 = None then Inr \<lparr>valid = False, ratio = None\<rparr>
      else (case luminance c1 of
              Inl e \<Rightarrow> Inl e
            | Inr l1 \<Rightarrow>
                (case luminance c2 of
                   Inl e \<Rightarrow> Inl e
                 | Inr l2 \<Rightarrow>
                     let ratio = (max l1 l2 + 0.05) / (min l1 l2 + 0.05) in
                     Inr \<lparr>valid = (ratio \<ge> 4.5), ratio = Some ratio\<rparr>)))"

subsection \<open>The specification's terms\<close>

text \<open>
  The WCAG quantities as the specification words them: the relative luminance of a
  colour, and the contrast ratio of two luminances.
\<close>

definition relativeLuminance :: "rgb_t \<Rightarrow> real" where
  "relativeLuminance c =
     0.2126 * channel (rgb_r c) + 0.7152 * channel (rgb_g c) + 0.0722 * channel (rgb_b c)"

definition wcagRatio :: "real \<Rightarrow> real \<Rightarrow> real" where
  "wcagRatio l1 l2 = (max l1 l2 + 0.05) / (min l1 l2 + 0.05)"

text \<open>An optional \<open>#\<close> followed by exactly six hexadecimal digits.\<close>

definition hexColour :: "string \<Rightarrow> bool" where
  "hexColour s =
     (let ds = (if s \<noteq> [] \<and> hd s = CHR ''#'' then tl s else s)
      in length ds = 6 \<and> list_all isHexDigit ds)"

subsection \<open>Black on white, grey on grey\<close>

lemma rgb_black: "rgb ''#000000'' = Some \<lparr>rgb_r = 0, rgb_g = 0, rgb_b = 0\<rparr>"
  by (simp add: rgb_def isHexDigit_def parseInt16_def hexVal_def)

lemma rgb_white: "rgb ''#FFFFFF'' = Some \<lparr>rgb_r = 255, rgb_g = 255, rgb_b = 255\<rparr>"
  by (simp add: rgb_def isHexDigit_def parseInt16_def hexVal_def)

lemma rgb_777: "rgb ''#777777'' = Some \<lparr>rgb_r = 119, rgb_g = 119, rgb_b = 119\<rparr>"
  by (simp add: rgb_def isHexDigit_def parseInt16_def hexVal_def)

lemma rgb_888: "rgb ''#888888'' = Some \<lparr>rgb_r = 136, rgb_g = 136, rgb_b = 136\<rparr>"
  by (simp add: rgb_def isHexDigit_def parseInt16_def hexVal_def)

lemma channel_0: "channel 0 = 0"
  by (simp add: channel_def)

lemma channel_255: "channel 255 = 1"
  by (simp add: channel_def)

lemma validateContrast_black_white:
  "validateContrast ''#000000'' ''#FFFFFF'' = Inr \<lparr>valid = True, ratio = Some 21\<rparr>"
  by (simp add: validateContrast_def rgb_black rgb_white luminance_def channel_0 channel_255)

text \<open>
  Between 0 and 1 the power 2.4 lies between the cube and the square, which bounds the
  luminance of the two greys without evaluating the power.
\<close>

lemma powr_between:
  fixes x :: real
  assumes "0.49 \<le> x" "x \<le> 0.56"
  shows "0.117 \<le> x powr 2.4" "x powr 2.4 \<le> 0.3136"
proof -
  have pos: "0 < x" and le1: "x \<le> 1" using assms by auto
  have "x powr 3 \<le> x powr 2.4"
    using pos le1 by (intro powr_mono') auto
  moreover have "x powr 3 = x ^ 3" using pos powr_numeral [of x "num.Bit1 num.One"] by simp
  moreover have "(0.49::real) ^ 3 \<le> x ^ 3" using assms(1) by (intro power_mono) auto
  moreover have "(0.117::real) \<le> 0.49 ^ 3" by (simp add: power3_eq_cube)
  ultimately show "0.117 \<le> x powr 2.4" by linarith
  have "x powr 2.4 \<le> x powr 2"
    using pos le1 by (intro powr_mono') auto
  moreover have "x powr 2 = x ^ 2" using pos powr_numeral [of x "num.Bit0 num.One"] by simp
  moreover have "x ^ 2 \<le> (0.56::real) ^ 2" using assms(2) pos by (intro power_mono) auto
  moreover have "(0.56::real) ^ 2 = 0.3136" by (simp add: power2_eq_square)
  ultimately show "x powr 2.4 \<le> 0.3136" by linarith
qed

lemma channel_119: "0.117 \<le> channel 119" "channel 119 \<le> 0.3136"
proof -
  have eq: "channel 119 = ((119 / 255 + 0.055) / 1.055) powr 2.4"
    by (simp add: channel_def)
  have b: "(0.49::real) \<le> (119 / 255 + 0.055) / 1.055" "(119 / 255 + 0.055) / 1.055 \<le> (0.56::real)"
    by simp_all
  show "0.117 \<le> channel 119" "channel 119 \<le> 0.3136"
    unfolding eq using powr_between [OF b] by simp_all
qed

lemma channel_136: "0.117 \<le> channel 136" "channel 136 \<le> 0.3136"
proof -
  have eq: "channel 136 = ((136 / 255 + 0.055) / 1.055) powr 2.4"
    by (simp add: channel_def)
  have b: "(0.49::real) \<le> (136 / 255 + 0.055) / 1.055" "(136 / 255 + 0.055) / 1.055 \<le> (0.56::real)"
    by simp_all
  show "0.117 \<le> channel 136" "channel 136 \<le> 0.3136"
    unfolding eq using powr_between [OF b] by simp_all
qed

lemma wcagRatio_mid:
  assumes "0.117 \<le> l1" "l1 \<le> 0.3136" "0.117 \<le> l2" "l2 \<le> 0.3136"
  shows "wcagRatio l1 l2 < 4.5"
proof -
  have den: "0 < min l1 l2 + 0.05" using assms by auto
  have "max l1 l2 + 0.05 < 4.5 * (min l1 l2 + 0.05)" using assms by auto
  then show ?thesis
    unfolding wcagRatio_def using den by (simp add: pos_divide_less_eq)
qed

lemma validateContrast_greys:
  "\<exists>x. validateContrast ''#777777'' ''#888888'' = Inr \<lparr>valid = False, ratio = Some x\<rparr> \<and> x < 4.5"
proof -
  let ?l1 = "0.2126 * channel 119 + 0.7152 * channel 119 + 0.0722 * channel 119"
  let ?l2 = "0.2126 * channel 136 + 0.7152 * channel 136 + 0.0722 * channel 136"
  have l1: "?l1 = channel 119" and l2: "?l2 = channel 136" by simp_all
  have small: "wcagRatio ?l1 ?l2 < 4.5"
    unfolding l1 l2 using channel_119 channel_136 by (rule wcagRatio_mid)
  have "validateContrast ''#777777'' ''#888888''
        = Inr \<lparr>valid = (wcagRatio ?l1 ?l2 \<ge> 4.5), ratio = Some (wcagRatio ?l1 ?l2)\<rparr>"
    by (simp add: validateContrast_def rgb_777 rgb_888 luminance_def wcagRatio_def Let_def)
  with small show ?thesis by auto
qed

lemma validateContrast_wcag:
  "validateContrast colorHex backgroundHex =
     (case (rgb colorHex, rgb backgroundHex) of
        (Some c1, Some c2) \<Rightarrow>
           Inr \<lparr>valid = (4.5 \<le> wcagRatio (relativeLuminance c1) (relativeLuminance c2)),
                ratio = Some (wcagRatio (relativeLuminance c1) (relativeLuminance c2))\<rparr>
      | _ \<Rightarrow> Inr \<lparr>valid = False, ratio = None\<rparr>)"
  by (cases "rgb colorHex"; cases "rgb backgroundHex")
     (simp_all add: validateContrast_def luminance_def wcagRatio_def relativeLuminance_def Let_def)

text \<open>
  Claim C8.  Black on white is valid with ratio (1 + 0.05) / (0 + 0.05) = 21; the greys
  \<open>#777777\<close> and \<open>#888888\<close> are invalid with a ratio below 4.5; and for every two
  colours that parse, the ratio returned is the WCAG ratio of their relative luminances
  and \<open>valid\<close> holds exactly when it is at least 4.5.
\<close>

theorem contrast_examples_and_threshold:
  "validateContrast ''#000000'' ''#FFFFFF'' = Inr \<lparr>valid = True, ratio = Some 21\<rparr>
   \<and> (1.0 + 0.05) / (0.0 + 0.05) = (21::real)
   \<and> (\<exists>x. validateContrast ''#777777'' ''#888888'' = Inr \<lparr>valid = False, ratio = Some x\<rparr>
           \<and> x < 4.5)
   \<and> validateContrast colorHex backgroundHex =
       (case (rgb colorHex, rgb backgroundHex) of
          (Some c1, Some c2) \<Rightarrow>
             Inr \<lparr>valid = (4.5 \<le> wcagRatio (relativeLuminance c1) (relativeLuminance c2)),
                  ratio = Some (wcagRatio (relativeLuminance c1) (relativeLuminance c2))\<rparr>
        | _ \<Rightarrow> Inr \<lparr>valid = False, ratio = None\<rparr>)"
proof -
  have "(1.0 + 0.05) / (0.0 + 0.05) = (21::real)" by simp
  with validateContrast_black_white validateContrast_greys validateContrast_wcag [of colorHex backgroundHex]
  show ?thesis by blast
qed

subsection \<open>Inputs that are not colours\<close>

lemma strip_hash:
  "(case stripPrefix ''#'' s of Some rest \<Rightarrow> rest | None \<Rightarrow> s)
   = (if s \<noteq> [] \<and> hd s = CHR ''#'' then tl s else s)"
  by (cases s) auto

lemma hexGroups_None_iff:
  "hexGroups ds = None \<longleftrightarrow> \<not> (length ds = 6 \<and> list_all isHexDigit ds)"
  by (induction ds rule: hexGroups.induct) simp_all

lemma rgb_None_iff: "rgb s = None \<longleftrightarrow> \<not> hexColour s"
proof -
  have "rgb s = None \<longleftrightarrow> hexGroups (if s \<noteq> [] \<and> hd s = CHR ''#'' then tl s else s) = None"
    unfolding rgb_def strip_hash by (simp split: option.split)
  then show ?thesis
    unfolding hexGroups_None_iff hexColour_def Let_def by simp
qed

text \<open>
  Claim C10.  For every pair of strings \<open>validateContrast\<close> returns a result and throws
  nothing (the \<open>null\<close> test stands before the only property access that could throw);
  when either string is not an optional \<open>#\<close> followed by exactly six hexadecimal digits,
  the result is \<open>valid = false\<close> with no ratio.
\<close>

theorem validateContrast_total_and_rejects:
  "(\<exists>res. validateContrast colorHex backgroundHex = Inr res)
   \<and> (\<not> hexColour colorHex \<or> \<not> hexColour backgroundHex
        \<longrightarrow> validateContrast colorHex backgroundHex = Inr \<lparr>valid = False, ratio = None\<rparr>)"
proof -
  have total: "\<exists>res. validateContrast colorHex backgroundHex = Inr res"
    by (cases "rgb colorHex"; cases "rgb backgroundHex")
       (simp_all add: validateContrast_def luminance_def Let_def)
  have reject: "\<not> hexColour colorHex \<or> \<not> hexColour backgroundHex
        \<longrightarrow> validateContrast colorHex backgroundHex = Inr \<lparr>valid = False, ratio = None\<rparr>"
    using rgb_None_iff [of colorHex] rgb_None_iff [of backgroundHex]
    by (auto simp: validateContrast_def Let_def)
  from total reject show ?thesis by (rule conjI)
qed

text \<open>The theorem at the colour name \<open>red\<close> against white.\<close>

theorem validateContrast_total_and_rejects_witness:
  "\<not> hexColour ''red''
   \<and> validateContrast ''red'' ''#FFFFFF'' = Inr \<lparr>valid = False, ratio = None\<rparr>"
proof -
  have nc: "\<not> hexColour ''red''" by (simp add: hexColour_def)
  with validateContrast_total_and_rejects [of "''red''" "''#FFFFFF''"]
  show ?thesis by blast
qed

section \<open>The routes of a QR code (routes/qrcodes)\<close>

subsection \<open>Rows and replies\<close>

datatype QRMode = EMBED | REDIRECT

text \<open>
  A stored QR code.  \<open>qr_options\<close> is \<open>None\<close> for the empty object that creation stores
  when the request carries no options.
\<close>

record qr_row =
  qr_id :: string
  qr_slug :: string
  qr_mode :: QRMode
  qr_content :: string
  qr_targetUrl :: "string option"
  qr_options :: "QROptions option"
  qr_logoUrl :: "string option"
  qr_ownerEditTokenHash :: string

record create_response =
  res_id :: string
  res_slug :: string
  res_editToken :: string
  res_publicUrl :: string
  res_managementUrl :: string
  res_expires :: "string option"

text \<open>
  What a handler sends: \<open>{success: false, error}\<close>, a buffer, or \<open>{success: true, data}\<close>
  for a created code, with the status code and the headers set on the reply.
\<close>

datatype 'b payload = Failure string | Bytes 'b | Success create_response

record 'b reply =
  status :: nat
  headers :: "(string \<times> string) list"
  payload :: "'b payload"

definition fail :: "nat \<Rightarrow> string \<Rightarrow> 'b reply" where
  "fail code msg = \<lparr>status = code, headers = [], payload = Failure msg\<rparr>"

subsection \<open>Export\<close>

text \<open>
  The three generators of the service are parameters of the handler: each returns a
  buffer or throws.  They receive the data to encode (\<open>null\<close> for a redirect row without
  target), the object \<open>{...qrCode.options, size}\<close> as the stored options with the requested
  size, and the logo address.
\<close>

record 'b qr_service =
  svc_generateSVG :: "string option \<Rightarrow> QROptions option \<times> real \<Rightarrow> js_error + 'b"
  svc_generatePNG :: "string option \<Rightarrow> QROptions option \<times> real \<Rightarrow> string option \<Rightarrow> js_error + 'b"
  svc_generateJPEG :: "string option \<Rightarrow> QROptions option \<times> real \<Rightarrow> string option \<Rightarrow> js_error + 'b"

text \<open>
  The end of the handler for one branch of the \<open>switch\<close>: a generator that throws lands
  in the \<open>catch\<close> block, a buffer is sent with the branch's content type.
\<close>

definition sendImage :: "string \<Rightarrow> js_error + 'b \<Rightarrow> 'b reply" where
  "sendImage contentType generated =
     (case generated of
        Inl e \<Rightarrow> fail 500 ''Internal server error''
      | Inr buffer \<Rightarrow>
          \<lparr>status = 200,
           headers = [(''Content-Type'', contentType), (''Cache-Control'', ''public, max-age=3600'')],
           payload = Bytes buffer\<rparr>)"

text \<open>\<open>qrCode.logoUrl || undefined\<close>.\<close>

definition orUndefined :: "string option \<Rightarrow> string option" where
  "orUndefined v = (case v of None \<Rightarrow> None | Some u \<Rightarrow> if u = [] then None else Some u)"

text \<open>
  \<open>GET /api/qrcodes/:id/export\<close>.  \<open>findUnique\<close> is the storage lookup by identifier: it
  throws, finds nothing, or finds the row; it runs inside the \<open>try\<close> block, so a lookup
  that throws is answered by the \<open>catch\<close> block.  \<open>format\<close> is the string of the query,
  whatever it is: the model is the handler's own dispatch, without the schema check the
  framework may run before it.
\<close>

definition exportHandler ::
  "(string \<Rightarrow> js_error + qr_row option) \<Rightarrow> 'b qr_service \<Rightarrow> string \<Rightarrow> string \<Rightarrow> real
     \<Rightarrow> 'b reply" where
  "exportHandler findUnique svc ident format sz =
     (case findUnique ident of
        Inl e \<Rightarrow> fail 500 ''Internal server error''
      | Inr None \<Rightarrow> fail 404 ''QR code not found''
      | Inr (Some qrCode) \<Rightarrow>
          let data = (if qr_mode qrCode = REDIRECT then qr_targetUrl qrCode
                      else Some (qr_content qrCode));
              options = (qr_options qrCode, sz)
          in if format = ''svg'' then
               sendImage ''image/svg+xml'' (svc_generateSVG svc data options)
             else if format = ''png'' then
               sendImage ''image/png''
                 (svc_generatePNG svc data options (orUndefined (qr_logoUrl qrCode)))
             else if format = ''jpeg'' then
               sendImage ''image/jpeg''
                 (svc_generateJPEG svc data options (orUndefined (qr_logoUrl qrCode)))
             else fail 400 ''Invalid format. Use png, jpeg, or svg.'')"

text \<open>The content type the specification gives each format, and the 4xx status codes.\<close>

definition contentTypeOf :: "string \<Rightarrow> string option" where
  "contentTypeOf format =
     (if format = ''svg'' then Some ''image/svg+xml''
      else if format = ''png'' then Some ''image/png''
      else if format = ''jpeg'' then Some ''image/jpeg''
      else None)"

definition isClientError :: "nat \<Rightarrow> bool" where
  "isClientError code = (400 \<le> code \<and> code < 500)"

text \<open>
  A storage with one code, a storage whose lookup throws, and a service whose JPEG
  generator throws.
\<close>

definition sampleRow :: qr_row where
  "sampleRow = \<lparr>qr_id = ''qr1'', qr_slug = ''AAAAAAAAA'', qr_mode = EMBED, qr_content = ''hello'',
     qr_targetUrl = None, qr_options = Some sampleOptions, qr_logoUrl = None,
     qr_ownerEditTokenHash = ''00:00''\<rparr>"

definition sampleLookup :: "string \<Rightarrow> js_error + qr_row option" where
  "sampleLookup ident = Inr (if ident = ''qr1'' then Some sampleRow else None)"

definition failingLookup :: "string \<Rightarrow> js_error + qr_row option" where
  "failingLookup ident = Inl (Error ''Can not reach database server'')"

definition sampleService :: "string qr_service" where
  "sampleService =
     \<lparr>svc_generateSVG = (\<lambda>data options. Inr ''<svg/>''),
      svc_generatePNG = (\<lambda>data options logo. Inr ''PNG''),
      svc_generateJPEG = (\<lambda>data options logo. Inl (Error ''Failed to composite logo onto QR code''))\<rparr>"

text \<open>
  Claim C9 as stated fails: when the storage lookup throws, a request for the format
  \<open>gif\<close> is answered 500 "Internal server error", which is not a client error.
\<close>

theorem export_unknown_format_counterexample:
  "''gif'' \<notin> {''svg'', ''png'', ''jpeg''}
   \<and> exportHandler failingLookup sampleService ''qr1'' ''gif'' 512
       = fail 500 ''Internal server error''
   \<and> \<not> isClientError (status (exportHandler failingLookup sampleService ''qr1'' ''gif'' 512))"
  by (simp add: exportHandler_def failingLookup_def fail_def isClientError_def)

text \<open>
  Claim C9, amended.  Every export reply with status 200 answers one of the three formats
  and carries the content type of the requested format.  A format outside svg, png and
  jpeg never reaches a generator: it is answered by a failure body, with status 400 when
  the code is found, 404 when it is not, and 500 when the storage lookup itself throws;
  so it is a client error whenever the lookup answers.
\<close>

theorem export_content_type_and_unknown_format:
  "(status (exportHandler findUnique svc ident format sz) = 200
      \<longrightarrow> format \<in> {''svg'', ''png'', ''jpeg''}
          \<and> map_of (headers (exportHandler findUnique svc ident format sz)) ''Content-Type''
              = contentTypeOf format)
   \<and> (format \<notin> {''svg'', ''png'', ''jpeg''}
      \<longrightarrow> exportHandler findUnique svc ident format sz
            = (case findUnique ident of
                 Inl e \<Rightarrow> fail 500 ''Internal server error''
               | Inr None \<Rightarrow> fail 404 ''QR code not found''
               | Inr (Some qrCode) \<Rightarrow> fail 400 ''Invalid format. Use png, jpeg, or svg.'')
          \<and> (\<forall>found. findUnique ident = Inr found
                \<longrightarrow> isClientError (status (exportHandler findUnique svc ident format sz))))"
  by (auto simp: exportHandler_def sendImage_def fail_def contentTypeOf_def isClientError_def Let_def
        split: option.splits sum.splits)

text \<open>The theorem at a PNG export that succeeds and at the format \<open>gif\<close>.\<close>

theorem export_content_type_and_unknown_format_witness:
  "status (exportHandler sampleLookup sampleService ''qr1'' ''png'' 512) = 200
   \<and> map_of (headers (exportHandler sampleLookup sampleService ''qr1'' ''png'' 512)) ''Content-Type''
       = Some ''image/png''
   \<and> ''gif'' \<notin> {''svg'', ''png'', ''jpeg''}
   \<and> sampleLookup ''qr1'' = Inr (Some sampleRow)
   \<and> exportHandler sampleLookup sampleService ''qr1'' ''gif'' 512
       = fail 400 ''Invalid format. Use png, jpeg, or svg.''
   \<and> isClientError (status (exportHandler sampleLookup sampleService ''qr1'' ''gif'' 512))"
proof -
  have ok: "status (exportHandler sampleLookup sampleService ''qr1'' ''png'' 512) = 200"
    by (simp add: exportHandler_def sampleLookup_def sampleRow_def sampleService_def sendImage_def)
  have gif: "''gif'' \<notin> {''svg'', ''png'', ''jpeg''}"
    by simp
  have ct: "contentTypeOf ''png'' = Some ''image/png''"
    by (simp add: contentTypeOf_def)
  have found: "sampleLookup ''qr1'' = Inr (Some sampleRow)"
    by (simp add: sampleLookup_def)
  from export_content_type_and_unknown_format
         [of sampleLookup sampleService "''qr1''" "''png''" 512] ok ct
  have png: "map_of (headers (exportHandler sampleLookup sampleService ''qr1'' ''png'' 512))
               ''Content-Type'' = Some ''image/png''"
    by simp
  from export_content_type_and_unknown_format
         [of sampleLookup sampleService "''qr1''" "''gif''" 512] gif found
  have bad: "exportHandler sampleLookup sampleService ''qr1'' ''gif'' 512
               = fail 400 ''Invalid format. Use png, jpeg, or svg.''"
    and cli: "isClientError (status (exportHandler sampleLookup sampleService ''qr1'' ''gif'' 512))"
    by (simp, blast)
  from ok png gif found bad cli show ?thesis by blast
qed

subsection \<open>Slugs and edit tokens from the random sources\<close>

text \<open>
  \<open>Math.random\<close> and \<open>randomBytes\<close> are modelled as two infinite sequences, of doubles
  in [0, 1) and of bytes, read in order; the number of values read so far is the state.
\<close>

definition chars :: string where
  "chars = ''ABCDEFGHIJKLMNOPQRSTUVWXYZabcdefghijklmnopqrstuvwxyz0123456789''"

text \<open>
  \<open>String.prototype.charAt\<close>: the empty string outside the string (and at an infinity,
  here \<open>None\<close>).
\<close>

definition charAt :: "string \<Rightarrow> int option \<Rightarrow> string" where
  "charAt s pos =
     (case pos of
        None \<Rightarrow> []
      | Some i \<Rightarrow> if 0 \<le> i \<and> i < int (length s) then [s ! nat i] else [])"

text \<open>
  The loop of \<open>generateSlug\<close>: \<open>k\<close> is the index of the next draw, the last argument the
  number of iterations left.  Each character is
  \<open>chars.charAt(Math.floor(Math.random() * chars.length))\<close>.
\<close>

fun slugLoop :: "(nat \<Rightarrow> real) \<Rightarrow> nat \<Rightarrow> nat \<Rightarrow> string" where
  "slugLoop random k 0 = []"
| "slugLoop random k (Suc n) =
     charAt chars (map_option floor (jsMul (random k) (real (length chars))))
       @ slugLoop random (Suc k) n"

definition generateSlug :: "(nat \<Rightarrow> real) \<Rightarrow> nat \<Rightarrow> string \<times> nat" where
  "generateSlug random k = (slugLoop random k 9, k + 9)"

definition randomBytes :: "(nat \<Rightarrow> byte) \<Rightarrow> nat \<Rightarrow> nat \<Rightarrow> byte list \<times> nat" where
  "randomBytes source k n = (map source [k..<k + n], k + n)"

definition generateEditToken :: "(nat \<Rightarrow> byte) \<Rightarrow> nat \<Rightarrow> string \<times> nat" where
  "generateEditToken source k = (let (bytes, k') = randomBytes source k 32 in (toHex bytes, k'))"

subsection \<open>The environment of a creation\<close>

record rng_state =
  mathCalls :: nat
  byteCalls :: nat

text \<open>
  What the handler takes from the runtime and from the object store: the two random
  sources, the digest, \<open>process.env.BASE_URL\<close>, the clock \<open>Date.now()\<close>, the number
  formats \<open>toString(36)\<close> and \<open>toFixed(2)\<close>, the base-64 decoding of \<open>Buffer.from\<close>, and the
  upload of the store client, which answers the location of the object or rejects.
\<close>

record create_env =
  env_random :: "nat \<Rightarrow> real"
  env_randomBytes :: "nat \<Rightarrow> byte"
  env_sha256 :: "string \<Rightarrow> byte list"
  env_baseUrl :: string
  env_now :: nat
  env_toString36 :: "real \<Rightarrow> string"
  env_toFixed2 :: "real \<Rightarrow> string"
  env_base64 :: "string \<Rightarrow> byte list"
  env_s3Upload :: "byte list \<Rightarrow> string \<Rightarrow> string option \<Rightarrow> string option"

record create_request =
  req_mode :: QRMode
  req_content :: string
  req_options :: "QROptions option"
  req_logo :: "string option"

subsection \<open>The object store service (services/s3-service)\<close>

text \<open>The decimal text of a natural number, as a template literal writes it.\<close>

fun decimal :: "nat \<Rightarrow> string" where
  "decimal n =
     (if n < 10 then [''0123456789'' ! n]
      else decimal (n div 10) @ [''0123456789'' ! (n mod 10)])"

text \<open>\<open>generateKey\<close> reads the clock and draws one number from \<open>Math.random\<close>.\<close>

definition generateKey :: "create_env \<Rightarrow> nat \<Rightarrow> string \<Rightarrow> string \<Rightarrow> string \<Rightarrow> string \<times> nat" where
  "generateKey env k prefix filename extension =
     (let timestamp = env_now env;
          random = drop 2 (env_toString36 env (env_random env k))
      in (prefix @ ''/'' @ decimal timestamp @ ''-'' @ random @ ''-'' @ filename @ extension,
          Suc k))"

record file_validation =
  fv_valid :: bool
  fv_error :: "string option"

text \<open>\<open>validateFile\<close>; the content type is \<open>None\<close> when it is \<open>undefined\<close>.\<close>

definition validateFile :: "byte list \<Rightarrow> string option \<Rightarrow> file_validation" where
  "validateFile buffer contentType =
     (if length buffer > 5 * 1024 * 1024
      then \<lparr>fv_valid = False, fv_error = Some ''File size exceeds 5MB limit''\<rparr>
      else if contentType \<notin> Some ` set [''image/jpeg'', ''image/png'', ''image/webp'']
      then \<lparr>fv_valid = False,
            fv_error = Some ''File type not supported. Use JPEG, PNG, or WebP.''\<rparr>
      else \<lparr>fv_valid = True, fv_error = None\<rparr>)"

definition uploadFile :: "create_env \<Rightarrow> byte list \<Rightarrow> string \<Rightarrow> string option \<Rightarrow> js_error + string" where
  "uploadFile env buffer key contentType =
     (case env_s3Upload env buffer key contentType of
        None \<Rightarrow> Inl (Error ''Failed to upload file to S3'')
      | Some location \<Rightarrow> Inr location)"

subsection \<open>Creation\<close>

text \<open>An element of an array by index, \<open>undefined\<close> (here \<open>None\<close>) outside it.\<close>

definition element :: "'a list \<Rightarrow> nat \<Rightarrow> 'a option" where
  "element xs i = (if i < length xs then Some (xs ! i) else None)"

text \<open>
  The contrast check at the head of the handler: \<open>Some\<close> reply when the handler returns
  there.  It runs when the options carry a non-empty colour and background.
\<close>

definition contrastStage :: "create_env \<Rightarrow> QROptions option \<Rightarrow> 'b reply option" where
  "contrastStage env opts =
     (case opts of
        None \<Rightarrow> None
      | Some options \<Rightarrow>
          if color options = [] \<or> background options = [] then None
          else (case validateContrast (color options) (background options) of
                  Inl e \<Rightarrow> Some (fail 500 ''Internal server error'')
                | Inr contrast \<Rightarrow>
                    if valid contrast then None
                    else Some (fail 400
                           (''Color contrast too low ('' @
                            (case ratio contrast of
                               None \<Rightarrow> ''undefined''
                             | Some r \<Rightarrow> env_toFixed2 env r) @
                            '':1). Minimum 4.5:1 required for scanability.''))))"

text \<open>
  The handling of the logo: a reply when the handler returns or an exception reaches
  the \<open>catch\<close> block, else the address of the uploaded logo (\<open>None\<close> without a logo),
  together with the number of draws from \<open>Math.random\<close> so far.  \<open>Buffer.from\<close> throws on
  \<open>undefined\<close>, that is for a logo text without a comma.
\<close>

definition logoStage ::
  "create_env \<Rightarrow> nat \<Rightarrow> string option \<Rightarrow> ('b reply + string option) \<times> nat" where
  "logoStage env k logo =
     (case logo of
        None \<Rightarrow> (Inr None, k)
      | Some text \<Rightarrow>
          if text = [] then (Inr None, k)
          else (case element (splitOn CHR '','' text) 1 of
                  None \<Rightarrow> (Inl (fail 500 ''Internal server error''), k)
                | Some encoded \<Rightarrow>
                    let logoBuffer = env_base64 env encoded;
                        contentType = element (splitOn CHR '':'' (hd (splitOn CHR '';'' text))) 1;
                        validation = validateFile logoBuffer contentType
                    in if \<not> fv_valid validation
                       then (Inl \<lparr>status = 400, headers = [],
                                  payload = Failure (case fv_error validation of
                                                       None \<Rightarrow> [] | Some msg \<Rightarrow> msg)\<rparr>, k)
                       else (let (key, k') = generateKey env k ''logos'' ''logo'' ''.png'' in
                             case uploadFile env logoBuffer key contentType of
                               Inl e \<Rightarrow> (Inl (fail 500 ''Internal server error''), k')
                             | Inr location \<Rightarrow> (Inr (Some location), k'))))"

text \<open>
  Modelled from the spec: the storage collaborator behind \<open>prisma.qRCode.create\<close>, whose
  schema is not among the sources.  The specification has it enforce the uniqueness of
  slugs; the redirect route looks codes up by slug with \<open>findUnique\<close>.  A create with a
  slug already stored throws; otherwise the row is stored under a new identifier.
\<close>

definition uniqueSlugStore ::
  "(qr_row list \<Rightarrow> string) \<Rightarrow> qr_row list \<Rightarrow> qr_row \<Rightarrow> js_error + qr_row \<times> qr_row list" where
  "uniqueSlugStore newId db row =
     (if qr_slug row \<in> qr_slug ` set db
      then Inl (Error ''Unique constraint failed on the fields: (slug)'')
      else (let stored = row\<lparr>qr_id := newId db\<rparr> in Inr (stored, stored # db)))"

text \<open>
  The handler from the comment "Generate unique identifiers" on.  The storage is a
  parameter \<open>create\<close>; whatever it throws is caught and answered with status 500.  The
  result is the reply, the storage and the state of the random sources.
\<close>

definition createQR ::
  "create_env \<Rightarrow> ('db \<Rightarrow> qr_row \<Rightarrow> js_error + qr_row \<times> 'db) \<Rightarrow> 'db \<Rightarrow> rng_state
     \<Rightarrow> QRMode \<Rightarrow> string \<Rightarrow> QROptions option \<Rightarrow> string option
     \<Rightarrow> 'b reply \<times> 'db \<times> rng_state" where
  "createQR env create db st md cont opts logoUrl =
     (let (slug, m1) = generateSlug (env_random env) (mathCalls st);
          (editToken, b1) = generateEditToken (env_randomBytes env) (byteCalls st);
          (saltBytes, b2) = randomBytes (env_randomBytes env) b1 16;
          editTokenHash = hashEditToken (env_sha256 env) saltBytes editToken;
          st' = \<lparr>mathCalls = m1, byteCalls = b2\<rparr>;
          targetUrl = (if md = REDIRECT then Some (env_baseUrl env @ ''/r/'' @ slug) else None)
      in case create db \<lparr>qr_id = [], qr_slug = slug, qr_mode = md, qr_content = cont,
                          qr_targetUrl = targetUrl, qr_options = opts, qr_logoUrl = logoUrl,
                          qr_ownerEditTokenHash = editTokenHash\<rparr> of
           Inl e \<Rightarrow> (fail 500 ''Internal server error'', db, st')
         | Inr (qrCode, db') \<Rightarrow>
             (\<lparr>status = 201, headers = [],
               payload = Success
                 \<lparr>res_id = qr_id qrCode, res_slug = slug, res_editToken = editToken,
                  res_publicUrl =
                    (if md = REDIRECT then env_baseUrl env @ ''/r/'' @ slug
                     else env_baseUrl env @ ''/api/qrcodes/'' @ qr_id qrCode @ ''/export?format=svg''),
                  res_managementUrl =
                    env_baseUrl env @ ''/manage/'' @ slug @ ''?token='' @ editToken,
                  res_expires = None\<rparr>\<rparr>,
              db', st'))"

text \<open>\<open>POST /api/qrcodes\<close>: the contrast check, the logo, then the creation.\<close>

definition postQrcodes ::
  "create_env \<Rightarrow> ('db \<Rightarrow> qr_row \<Rightarrow> js_error + qr_row \<times> 'db) \<Rightarrow> 'db \<Rightarrow> rng_state
     \<Rightarrow> create_request \<Rightarrow> 'b reply \<times> 'db \<times> rng_state" where
  "postQrcodes env create db st body =
     (case contrastStage env (req_options body) of
        Some early \<Rightarrow> (early, db, st)
      | None \<Rightarrow>
          (case logoStage env (mathCalls st) (req_logo body) of
             (Inl early, k) \<Rightarrow> (early, db, st\<lparr>mathCalls := k\<rparr>)
           | (Inr logoUrl, k) \<Rightarrow>
               createQR env create db (st\<lparr>mathCalls := k\<rparr>)
                 (req_mode body) (req_content body) (req_options body) logoUrl))"

subsection \<open>What the stages draw\<close>

lemma contrastStage_status:
  "contrastStage env opts = Some early \<Longrightarrow> status early = 400 \<or> status early = 500"
  by (auto simp: contrastStage_def fail_def split: option.splits if_splits sum.splits)

lemma logoStage_draws:
  assumes "logoStage env k logo = (res, k')"
  shows "(k' = k \<or> k' = Suc k)
       \<and> (\<forall>early. res = Inl early \<longrightarrow> status early = 400 \<or> status early = 500)"
proof (cases logo)
  case None
  with assms show ?thesis by (auto simp: logoStage_def)
next
  case (Some raw)
  show ?thesis
  proof (cases "raw = []")
    case True
    with assms Some show ?thesis by (auto simp: logoStage_def)
  next
    case False
    show ?thesis
    proof (cases "element (splitOn CHR '','' raw) 1")
      case None
      with assms Some False show ?thesis by (auto simp: logoStage_def fail_def)
    next
      case (Some encoded)
      define buffer where "buffer = env_base64 env encoded"
      define ctype where "ctype = element (splitOn CHR '':'' (hd (splitOn CHR '';'' raw))) 1"
      show ?thesis
      proof (cases "fv_valid (validateFile buffer ctype)")
        case False
        with assms \<open>logo = Some raw\<close> \<open>raw \<noteq> []\<close> Some show ?thesis
          by (auto simp: logoStage_def buffer_def ctype_def Let_def)
      next
        case True
        show ?thesis
        proof (cases "uploadFile env buffer
                        (fst (generateKey env k ''logos'' ''logo'' ''.png'')) ctype")
          case (Inl e)
          with assms \<open>logo = Some raw\<close> \<open>raw \<noteq> []\<close> Some True show ?thesis
            by (auto simp: logoStage_def buffer_def ctype_def Let_def generateKey_def fail_def)
        next
          case (Inr location)
          with assms \<open>logo = Some raw\<close> \<open>raw \<noteq> []\<close> Some True show ?thesis
            by (auto simp: logoStage_def buffer_def ctype_def Let_def generateKey_def)
        qed
      qed
    qed
  qed
qed


lemma createQR_collision:
  assumes "createQR env (uniqueSlugStore newId) db st md cont opts logoUrl = (reply, db', st')"
  shows "mathCalls st' = mathCalls st + 9
       \<and> (fst (generateSlug (env_random env) (mathCalls st)) \<in> qr_slug ` set db
            \<longrightarrow> reply = fail 500 ''Internal server error'' \<and> db' = db)"
proof -
  obtain slug m1 where gs: "generateSlug (env_random env) (mathCalls st) = (slug, m1)"
    by (cases "generateSlug (env_random env) (mathCalls st)")
  obtain editToken b1 where
    et: "generateEditToken (env_randomBytes env) (byteCalls st) = (editToken, b1)"
    by (cases "generateEditToken (env_randomBytes env) (byteCalls st)")
  obtain saltBytes b2 where sb: "randomBytes (env_randomBytes env) b1 16 = (saltBytes, b2)"
    by (cases "randomBytes (env_randomBytes env) b1 16")
  have m1: "m1 = mathCalls st + 9" using gs by (simp add: generateSlug_def)
  show ?thesis
  proof (cases "slug \<in> qr_slug ` set db")
    case True
    with assms m1 show ?thesis
      by (auto simp: createQR_def gs et sb uniqueSlugStore_def)
  next
    case False
    with assms m1 show ?thesis
      by (auto simp: createQR_def gs et sb uniqueSlugStore_def Let_def)
  qed
qed

lemma postQrcodes_draws:
  fixes reply :: "'b reply"
  assumes "postQrcodes env (uniqueSlugStore newId) db st body = (reply, db', st')"
  shows "mathCalls st \<le> mathCalls st' \<and> mathCalls st' \<le> mathCalls st + 10
        \<and> (mathCalls st' < mathCalls st + 9
              \<longrightarrow> db' = db \<and> (status reply = 400 \<or> status reply = 500))
        \<and> (mathCalls st + 9 \<le> mathCalls st'
              \<longrightarrow> (fst (generateSlug (env_random env) (mathCalls st' - 9)) \<in> qr_slug ` set db
                    \<longrightarrow> reply = fail 500 ''Internal server error'' \<and> db' = db))"
proof (cases "contrastStage env (req_options body) :: 'b reply option")
  case (Some early)
  with assms have "reply = early" "db' = db" "st' = st"
    by (simp_all add: postQrcodes_def)
  then show ?thesis using contrastStage_status [OF Some] by simp
next
  case None
  obtain res :: "'b reply + string option" and k where
    stage: "logoStage env (mathCalls st) (req_logo body) = (res, k)"
    by (rule prod.exhaust)
  from logoStage_draws [OF stage]
  have k: "k = mathCalls st \<or> k = Suc (mathCalls st)"
    and refused: "\<forall>early. res = Inl early \<longrightarrow> status early = 400 \<or> status early = 500"
    by blast+
  show ?thesis
  proof (cases res)
    case (Inl early)
    with assms None stage have "reply = early" "db' = db" "st' = st\<lparr>mathCalls := k\<rparr>"
      by (simp_all add: postQrcodes_def)
    then show ?thesis using k refused Inl by auto
  next
    case (Inr logoUrl)
    with assms None stage have run:
      "createQR env (uniqueSlugStore newId) db (st\<lparr>mathCalls := k\<rparr>)
         (req_mode body) (req_content body) (req_options body) logoUrl = (reply, db', st')"
      by (simp add: postQrcodes_def)
    from createQR_collision [OF run]
    have calls: "mathCalls st' = k + 9"
      and coll: "fst (generateSlug (env_random env) k) \<in> qr_slug ` set db
                  \<longrightarrow> reply = fail 500 ''Internal server error'' \<and> db' = db"
      by simp_all
    have drawn: "mathCalls st' - 9 = k" using calls by simp
    show ?thesis unfolding drawn using k calls coll by auto
  qed
qed

subsection \<open>A collision\<close>

text \<open>
  Random sources whose first nine draws give the slug \<open>AAAAAAAAA\<close> and the next nine
  \<open>BBBBBBBBB\<close>, a storage that already holds \<open>sampleRow\<close> with the first slug, and a
  request without options and without logo.
\<close>

definition sampleRandom :: "nat \<Rightarrow> real" where
  "sampleRandom n = (if n < 9 then 0 else 1 / 32)"

definition sampleEnv :: create_env where
  "sampleEnv =
     \<lparr>env_random = sampleRandom, env_randomBytes = of_nat,
      env_sha256 = (\<lambda>s. replicate 32 (of_nat (length s))),
      env_baseUrl = ''https://qr.example'', env_now = 1700000000000,
      env_toString36 = (\<lambda>r. ''0.k2j8x1''), env_toFixed2 = (\<lambda>r. ''1.26''),
      env_base64 = (\<lambda>s. []), env_s3Upload = (\<lambda>buffer key contentType. None)\<rparr>"

definition sampleNewId :: "qr_row list \<Rightarrow> string" where
  "sampleNewId db = replicate (Suc (length db)) CHR ''q''"

definition freshState :: rng_state where
  "freshState = \<lparr>mathCalls = 0, byteCalls = 0\<rparr>"

definition sampleRequest :: create_request where
  "sampleRequest = \<lparr>req_mode = REDIRECT, req_content = ''https://example.com'',
     req_options = None, req_logo = None\<rparr>"

lemma jsMul_0_62: "jsMul 0 62 = Some 0"
  by (simp add: jsMul_def toDouble_def)

lemma jsMul_32nd_62: "jsMul (1 / 32) 62 = Some (31 / 16)"
  unfolding jsMul_def using toDouble_in_binade [of 0 "1 / 32 * 62"]
  by (simp add: power_int_def roundEven_def Let_def power_one_over)

lemma sample_first_slug: "generateSlug sampleRandom 0 = (''AAAAAAAAA'', 9)"
  by (simp add: generateSlug_def sampleRandom_def chars_def charAt_def eval_nat_numeral jsMul_0_62)

lemma sample_second_slug: "generateSlug sampleRandom 9 = (''BBBBBBBBB'', 18)"
  by (simp add: generateSlug_def sampleRandom_def chars_def charAt_def eval_nat_numeral
        jsMul_32nd_62)

text \<open>
  Claim C4 as stated fails: the first candidate collides, the next candidate would be
  free, and the request is answered 500 "Internal server error" after nine draws, that
  is one candidate, with nothing stored.
\<close>

theorem slug_retry_counterexample:
  "fst (postQrcodes sampleEnv (uniqueSlugStore sampleNewId) [sampleRow] freshState sampleRequest)
     = (fail 500 ''Internal server error'' :: string reply)
   \<and> snd (postQrcodes sampleEnv (uniqueSlugStore sampleNewId) [sampleRow] freshState sampleRequest
          :: string reply \<times> qr_row list \<times> rng_state)
     = ([sampleRow], \<lparr>mathCalls = 9, byteCalls = 48\<rparr>)
   \<and> generateSlug sampleRandom 9 = (''BBBBBBBBB'', 18)
   \<and> ''BBBBBBBBB'' \<notin> qr_slug ` set [sampleRow]"
  by (simp add: postQrcodes_def contrastStage_def logoStage_def sampleRequest_def
        createQR_def sample_first_slug sample_second_slug sampleEnv_def freshState_def
        uniqueSlugStore_def sampleRow_def generateEditToken_def randomBytes_def Let_def)

text \<open>
  Claim C4, amended.  \<open>generateSlug\<close> produces only a candidate, and for every
  QR-creation request the handler draws at most one: beside the one draw of the logo's
  key it reads \<open>Math.random\<close> nine times or not at all.  A request refused before the
  slug (by the contrast check, the logo validation or a failed upload) is answered 400 or
  500 with nothing stored.  When a candidate is drawn and collides with a slug already
  stored, the create is refused, the reply is 500 "Internal server error" and nothing is
  stored: there is no retry and no allocation error of its own.
\<close>

theorem create_draws_one_candidate:
  "(case (postQrcodes env (uniqueSlugStore newId) db st body
            :: 'b reply \<times> qr_row list \<times> rng_state) of
      (reply, db', st') \<Rightarrow>
        mathCalls st \<le> mathCalls st' \<and> mathCalls st' \<le> mathCalls st + 10
        \<and> (mathCalls st' < mathCalls st + 9
              \<longrightarrow> db' = db \<and> (status reply = 400 \<or> status reply = 500))
        \<and> (mathCalls st + 9 \<le> mathCalls st'
              \<longrightarrow> (fst (generateSlug (env_random env) (mathCalls st' - 9)) \<in> qr_slug ` set db
                    \<longrightarrow> reply = fail 500 ''Internal server error'' \<and> db' = db)))"
proof -
  obtain reply :: "'b reply" and db' st' where
    run: "postQrcodes env (uniqueSlugStore newId) db st body = (reply, db', st')"
    by (rule prod_cases3)
  show ?thesis
    unfolding run using postQrcodes_draws [OF run] by simp
qed

text \<open>The theorem at the collision above.\<close>

theorem create_draws_one_candidate_witness:
  "fst (generateSlug (env_random sampleEnv) 0) \<in> qr_slug ` set [sampleRow]
   \<and> fst (postQrcodes sampleEnv (uniqueSlugStore sampleNewId) [sampleRow] freshState sampleRequest)
       = (fail 500 ''Internal server error'' :: string reply)
   \<and> mathCalls (snd (snd (postQrcodes sampleEnv (uniqueSlugStore sampleNewId) [sampleRow]
            freshState sampleRequest
            :: string reply \<times> qr_row list \<times> rng_state))) = 9"
proof -
  let ?run = "postQrcodes sampleEnv (uniqueSlugStore sampleNewId) [sampleRow] freshState
                sampleRequest
              :: string reply \<times> qr_row list \<times> rng_state"
  have mem: "fst (generateSlug (env_random sampleEnv) 0) \<in> qr_slug ` set [sampleRow]"
    by (simp add: sampleEnv_def sample_first_slug sampleRow_def)
  have nine: "mathCalls (snd (snd ?run)) = 9"
    by (simp add: postQrcodes_def contrastStage_def logoStage_def sampleRequest_def
          createQR_def sample_first_slug sampleEnv_def freshState_def
          uniqueSlugStore_def sampleRow_def generateEditToken_def randomBytes_def Let_def)
  obtain reply db' st' where run: "?run = (reply, db', st')"
    by (cases ?run) auto
  have st9: "mathCalls st' = 9" using nine unfolding run by simp
  from create_draws_one_candidate
         [where env = sampleEnv and newId = sampleNewId and db = "[sampleRow]"
            and st = freshState and body = sampleRequest and ?'b = string]
  have "reply = fail 500 ''Internal server error''"
    using mem st9 unfolding run by (simp add: freshState_def)
  then show ?thesis
    using mem st9 unfolding run by simp
qed

end
